theory Spec2Isabelle
  imports Complex_Main "HOL-Library.Char_ord" "HOL-Library.List_Lexorder" "HOL-Library.Sublist"
begin

section \<open>PyrusCrypt: the orchestration pipeline and the boot-partition creator\<close>

text \<open>
  A shallow embedding of \<^verbatim>\<open>src/boot.py\<close>, \<^verbatim>\<open>src/pyrus.py\<close> and \<^verbatim>\<open>src/Tpyrus.py\<close>.
  Strings are byte strings (\<^typ>\<open>string\<close>); on UTF-8 text the bytewise lexicographic
  order of \<^verbatim>\<open>HOL-Library.List_Lexorder\<close> is Python's code-point order. The regular
  expression class \<^verbatim>\<open>\d\<close> and \<^verbatim>\<open>str.isdigit\<close> are taken on the ASCII digits.
\<close>

subsection \<open>The outside world\<close>

type_synonym cmd = "string list"

text \<open>The exceptions of the run; all of them are instances of \<^verbatim>\<open>Exception\<close>.\<close>

datatype exn =
    CalledProcessError int cmd  \<comment> \<open>\<^verbatim>\<open>subprocess.CalledProcessError(rc, cmd)\<close>\<close>
  | OSError                     \<comment> \<open>any other failure of starting or reading a process or file\<close>
  | RuntimeError                \<comment> \<open>\<^verbatim>\<open>RuntimeError("No se pudo obtener el fin de la particion")\<close>\<close>
  | IndexError
  | ValueError
  | OverflowError

text \<open>
  The messages handed to the log sink (\<^verbatim>\<open>append_log\<close>, \<^verbatim>\<open>print_log\<close>), one constructor
  per call site of the source; the text of a message keeps only its variable parts.
\<close>

datatype msg =
    MsgFreeingTail                     \<comment> \<open>boot.py:110\<close>
  | InfoLuksSelected                   \<comment> \<open>boot.py:118\<close>
  | MsgTryShrink                       \<comment> \<open>boot.py:160\<close>
  | ErrMountedAsRoot                   \<comment> \<open>boot.py:165\<close>
  | MsgUnmounting string string        \<comment> \<open>boot.py:167\<close>
  | ErrNoPartitionNumber               \<comment> \<open>boot.py:176\<close>
  | ErrNotLastPartition string string  \<comment> \<open>boot.py:180\<close>
  | MsgRemounting string string        \<comment> \<open>boot.py:190\<close>
  | ErrShrinkFailed exn                \<comment> \<open>boot.py:195\<close>
  | MsgUsingRoot string string         \<comment> \<open>boot.py:209\<close>
  | MsgTable string string             \<comment> \<open>boot.py:220\<close>
  | InfoSkipShrinkLuks                 \<comment> \<open>boot.py:226\<close>
  | HintMsdos                          \<comment> \<open>boot.py:233\<close>
  | ErrNoBootLuks                      \<comment> \<open>boot.py:235\<close>
  | ErrNoBoot                          \<comment> \<open>boot.py:237\<close>
  | ErrNewPartitionNotDetected         \<comment> \<open>boot.py:250\<close>
  | MsgNewPartition string             \<comment> \<open>boot.py:254\<close>
  | ErrNoUuid string exn               \<comment> \<open>boot.py:268\<close>
  | MsgBootCreated                     \<comment> \<open>boot.py:271\<close>
  | MsgStepFsck                        \<comment> \<open>pyrus.py:250, boot.py:524\<close>
  | MsgStepMinimize                    \<comment> \<open>pyrus.py:254, boot.py:531\<close>
  | MsgStepBoot                        \<comment> \<open>boot.py:538\<close>
  | WarnBootFailed exn                 \<comment> \<open>boot.py:542\<close>
  | MsgStepReencrypt                   \<comment> \<open>pyrus.py:257, boot.py:547\<close>
  | MsgStepChroot                      \<comment> \<open>pyrus.py:270, boot.py:563\<close>
  | MsgInitramfs                       \<comment> \<open>pyrus.py:304, boot.py:601\<close>
  | MsgCompleted                       \<comment> \<open>pyrus.py:316, boot.py:612\<close>
  | ErrCommand int cmd                 \<comment> \<open>pyrus.py:320, boot.py:616\<close>
  | ErrUnexpected exn                  \<comment> \<open>pyrus.py:324, boot.py:620\<close>

text \<open>
  What a run leaves behind: every external command started through \<^verbatim>\<open>run_and_stream\<close>
  (\<open>Run\<close>), every read-only query made through \<^verbatim>\<open>subprocess.check_output\<close> (\<open>Query\<close>), and
  every message given to the log sink by the program itself, in the order of the run.
\<close>

datatype event = Run cmd | Query cmd | Log msg

record world =
  trace :: "event list"
  files :: "string set"

text \<open>One node of the tree that \<^verbatim>\<open>lsblk -J\<close> prints; a field is a string, null or missing.\<close>

datatype jfield = Missing | JNull | JStr string

datatype node = Node (n_name: jfield) (n_type: jfield) (n_size: jfield) (n_path: jfield)
  (n_mountpoint: jfield) (n_fstype: jfield) (n_children: "node list")

datatype proc_result = Rc int | StartFails

datatype tmp_outcome =
    TmpCreateFails     \<comment> \<open>\<^verbatim>\<open>NamedTemporaryFile\<close> raises: no file exists\<close>
  | TmpWriteFails string  \<comment> \<open>the file of this name exists; write, flush or close raises\<close>
  | TmpOk string       \<comment> \<open>the file of this name exists and holds the passphrase\<close>

text \<open>
  The environment answers each call from the history of the run so far. \<open>lsblk\<close> is the
  parsed \<^verbatim>\<open>blockdevices\<close> list, or \<open>None\<close> when the tool or \<^verbatim>\<open>json.loads\<close> fails;
  \<open>parted_print\<close> is the listing of a disk as \<^verbatim>\<open>out.splitlines()\<close> gives it.
\<close>

record env =
  proc :: "event list \<Rightarrow> cmd \<Rightarrow> proc_result"
  lsblk :: "event list \<Rightarrow> node list option"
  parted_print :: "event list \<Rightarrow> string \<Rightarrow> exn + string list"
  blkid :: "event list \<Rightarrow> string \<Rightarrow> exn + string"
  mktemp :: "event list \<Rightarrow> tmp_outcome"

subsection \<open>Sequencing with exceptions\<close>

type_synonym 'a prog = "world \<Rightarrow> (exn + 'a) \<times> world"

definition ret :: "'a \<Rightarrow> 'a prog" where
  "ret x = (\<lambda>w. (Inr x, w))"

definition raise :: "exn \<Rightarrow> 'a prog" where
  "raise e = (\<lambda>w. (Inl e, w))"

definition bnd :: "'a prog \<Rightarrow> ('a \<Rightarrow> 'b prog) \<Rightarrow> 'b prog" where
  "bnd m f = (\<lambda>w. case m w of (Inl e, w') \<Rightarrow> (Inl e, w') | (Inr x, w') \<Rightarrow> f x w')"

definition thn :: "'a prog \<Rightarrow> 'b prog \<Rightarrow> 'b prog" where
  "thn m n = bnd m (\<lambda>_. n)"

definition catch :: "'a prog \<Rightarrow> (exn \<Rightarrow> 'a prog) \<Rightarrow> 'a prog" where
  "catch m h = (\<lambda>w. case m w of (Inl e, w') \<Rightarrow> h e w' | (Inr x, w') \<Rightarrow> (Inr x, w'))"

definition emit :: "event \<Rightarrow> unit prog" where
  "emit ev = (\<lambda>w. (Inr (), w\<lparr>trace := trace w @ [ev]\<rparr>))"

definition append_log :: "msg \<Rightarrow> unit prog" where
  "append_log m = emit (Log m)"

definition whenp :: "bool \<Rightarrow> unit prog \<Rightarrow> unit prog" where
  "whenp b m = (if b then m else ret ())"

text \<open>
  \<^verbatim>\<open>run_and_stream(cmd, log_cb, check)\<close>: the process runs to its end, and a non-zero exit
  status raises when \<open>check\<close> is set. When \<^verbatim>\<open>Popen\<close> cannot start the program it raises
  and nothing has run. (A failure while the output of a started process is read is not
  modelled.)
\<close>

definition run_and_stream :: "env \<Rightarrow> cmd \<Rightarrow> bool \<Rightarrow> int prog" where
  "run_and_stream E c check = (\<lambda>w.
     case proc E (trace w) c of
       StartFails \<Rightarrow> (Inl OSError, w)
     | Rc rc \<Rightarrow>
         if check \<and> rc \<noteq> 0
         then (Inl (CalledProcessError rc c), w\<lparr>trace := trace w @ [Run c]\<rparr>)
         else (Inr rc, w\<lparr>trace := trace w @ [Run c]\<rparr>))"

definition run_strict :: "env \<Rightarrow> cmd \<Rightarrow> unit prog" where
  "run_strict E c = thn (run_and_stream E c True) (ret ())"

definition run_lax :: "env \<Rightarrow> cmd \<Rightarrow> unit prog" where
  "run_lax E c = thn (run_and_stream E c False) (ret ())"

subsection \<open>Python's string functions\<close>

definition is_digit :: "char \<Rightarrow> bool" where
  "is_digit c = (CHR ''0'' \<le> c \<and> c \<le> CHR ''9'')"

definition startswith :: "string \<Rightarrow> string \<Rightarrow> bool" where
  "startswith s p = (take (length p) s = p)"

definition endswith :: "string \<Rightarrow> string \<Rightarrow> bool" where
  "endswith s p = (length p \<le> length s \<and> drop (length s - length p) s = p)"

text \<open>\<^verbatim>\<open>s.split(sep)\<close> for a one-character separator.\<close>

fun split_on :: "char \<Rightarrow> string \<Rightarrow> string list" where
  "split_on sep [] = [[]]"
| "split_on sep (c # cs) =
     (if c = sep then [] # split_on sep cs
      else case split_on sep cs of [] \<Rightarrow> [[c]] | f # fs \<Rightarrow> (c # f) # fs)"

text \<open>\<^verbatim>\<open>s.rstrip('0123456789')\<close>.\<close>

definition rstrip_digits :: "string \<Rightarrow> string" where
  "rstrip_digits s = rev (dropWhile is_digit (rev s))"

text \<open>The digits \<^verbatim>\<open>rstrip\<close> removes.\<close>

definition trailing_digits :: "string \<Rightarrow> string" where
  "trailing_digits s = rev (takeWhile is_digit (rev s))"

text \<open>
  In a pattern without \<^verbatim>\<open>re.MULTILINE\<close>, \<^verbatim>\<open>$\<close> matches at the end of the string and just
  before a newline that is its last character: \<open>re_body\<close> is the part a pattern ending in
  \<^verbatim>\<open>$\<close> looks at, \<open>re_tail\<close> the newline it leaves alone.
\<close>

definition re_body :: "string \<Rightarrow> string" where
  "re_body s = (if s \<noteq> [] \<and> last s = CHR 0x0A then butlast s else s)"

definition re_tail :: "string \<Rightarrow> string" where
  "re_tail s = (if s \<noteq> [] \<and> last s = CHR 0x0A then [CHR 0x0A] else [])"

text \<open>\<^verbatim>\<open>str(n)\<close> of an integer; \<open>str_nat\<close> writes one that is not negative.\<close>

function str_nat :: "int \<Rightarrow> string" where
  "str_nat n = (if n < 10 then [char_of (48 + n)] else str_nat (n div 10) @ [char_of (48 + n mod 10)])"
  by pat_completeness auto
termination
  by (relation "measure nat") auto

declare str_nat.simps [simp del]

definition str_int :: "int \<Rightarrow> string" where
  "str_int i = (if i < 0 then CHR ''-'' # str_nat (- i) else str_nat i)"

text \<open>\<^verbatim>\<open>str(x)\<close> of a value that may be \<^verbatim>\<open>None\<close>.\<close>

definition str_opt_int :: "int option \<Rightarrow> string" where
  "str_opt_int x = (case x of None \<Rightarrow> ''None'' | Some i \<Rightarrow> str_int i)"

text \<open>The value of a string of decimal digits.\<close>

definition digits_val :: "string \<Rightarrow> int" where
  "digits_val s = foldl (\<lambda>a c. 10 * a + (of_char c - 48)) 0 s"

subsection \<open>Device inventory (\<^verbatim>\<open>list_block_devices\<close>, the same in all three files)\<close>

record device =
  path :: string
  dtype :: string
  size :: "string option"
  mountpoint :: "string option"
  fstype :: "string option"

text \<open>\<^verbatim>\<open>node.get(k)\<close> and \<^verbatim>\<open>node.get(k, d)\<close>.\<close>

definition jget :: "jfield \<Rightarrow> string option" where
  "jget f = (case f of JStr s \<Rightarrow> Some s | _ \<Rightarrow> None)"

definition jget_default :: "jfield \<Rightarrow> string \<Rightarrow> string option" where
  "jget_default f d = (case f of Missing \<Rightarrow> Some d | JNull \<Rightarrow> None | JStr s \<Rightarrow> Some s)"

text \<open>\<^verbatim>\<open>x or y\<close> on an optional string: the empty string is false as well.\<close>

definition truthy :: "string option \<Rightarrow> bool" where
  "truthy x = (case x of None \<Rightarrow> False | Some s \<Rightarrow> s \<noteq> [])"

definition fmt_opt :: "string option \<Rightarrow> string" where
  "fmt_opt x = (case x of None \<Rightarrow> ''None'' | Some s \<Rightarrow> s)"

fun walk :: "node \<Rightarrow> device list" where
  "walk (Node nm ty sz pth mpt fty chs) =
     (if jget ty = Some ''disk'' \<or> jget ty = Some ''part''
      then [\<lparr>path = (if truthy (jget pth) then the (jget pth) else ''/dev/'' @ fmt_opt (jget nm)),
             dtype = the (jget ty),
             size = jget_default sz ''?'',
             mountpoint = jget mpt,
             fstype = jget fty\<rparr>]
      else [])
     @ concat (map walk chs)"

definition lsblk_cmd :: cmd where
  "lsblk_cmd = [''lsblk'', ''-J'', ''-o'', ''NAME,TYPE,SIZE,PATH,MOUNTPOINT,FSTYPE'']"

text \<open>The inventory computed from the answer of the tool.\<close>

definition inventory :: "node list option \<Rightarrow> device list" where
  "inventory r = (case r of None \<Rightarrow> [] | Some blocks \<Rightarrow> sort_key path (concat (map walk blocks)))"

definition list_block_devices :: "env \<Rightarrow> device list prog" where
  "list_block_devices E = (\<lambda>w.
     (Inr (inventory (lsblk E (trace w))), w\<lparr>trace := trace w @ [Query lsblk_cmd]\<rparr>))"

subsection \<open>More of Python's string and number functions\<close>

definition is_space :: "char \<Rightarrow> bool" where
  "is_space c = (of_char c \<in> {9, 10, 11, 12, 13, 28, 29, 30, 31, 32 :: nat})"

text \<open>\<^verbatim>\<open>s.strip()\<close>.\<close>

definition py_strip :: "string \<Rightarrow> string" where
  "py_strip s = rev (dropWhile is_space (rev (dropWhile is_space s)))"

text \<open>\<^verbatim>\<open>s.lower()\<close> on ASCII letters.\<close>

definition py_lower :: "string \<Rightarrow> string" where
  "py_lower s = map (\<lambda>c. if CHR ''A'' \<le> c \<and> c \<le> CHR ''Z'' then char_of (of_char c + 32 :: nat) else c) s"

text \<open>The digit groups \<^verbatim>\<open>int()\<close> accepts: digits, with single underscores between digits.\<close>

fun int_body :: "string \<Rightarrow> bool" where
  "int_body [] = False"
| "int_body [c] = is_digit c"
| "int_body (c # d # cs) = (is_digit c \<and> (if d = CHR ''_'' then int_body cs else int_body (d # cs)))"

text \<open>
  The ASCII blanks that \<^verbatim>\<open>int()\<close> and \<^verbatim>\<open>float()\<close> skip at both ends of a string; unlike
  \<^verbatim>\<open>str.strip\<close> they do not skip the separators 0x1C to 0x1F.
\<close>

definition is_cspace :: "char \<Rightarrow> bool" where
  "is_cspace c = (of_char c \<in> {9, 10, 11, 12, 13, 32 :: nat})"

definition num_strip :: "string \<Rightarrow> string" where
  "num_strip s = rev (dropWhile is_cspace (rev (dropWhile is_cspace s)))"

text \<open>\<^verbatim>\<open>int(s)\<close>; \<open>None\<close> is \<^verbatim>\<open>ValueError\<close>.\<close>

definition py_int :: "string \<Rightarrow> int option" where
  "py_int s =
     (let t = num_strip s;
          neg = (t \<noteq> [] \<and> hd t = CHR ''-'');
          b = (if t \<noteq> [] \<and> (hd t = CHR ''-'' \<or> hd t = CHR ''+'') then tl t else t)
      in if int_body b
         then Some ((if neg then - 1 else 1) * digits_val (filter is_digit b))
         else None)"

subsection \<open>Python's floats\<close>

text \<open>
  A \<^verbatim>\<open>float\<close> is an IEEE 754 double: a finite one is kept as the rational number it is,
  the zeros are one value.
\<close>

datatype pyfloat = Fin rat | PInf | NInf | NaN

text \<open>The number of binary digits of a positive integer.\<close>

function bitlen :: "int \<Rightarrow> int" where
  "bitlen n = (if n \<le> 0 then 0 else 1 + bitlen (n div 2))"
  by pat_completeness auto
termination
  by (relation "measure nat") auto

declare bitlen.simps [simp del]

text \<open>\<open>2 ^ k\<close> and \<open>10 ^ k\<close> for an integer \<open>k\<close>.\<close>

function pow2 :: "int \<Rightarrow> rat" where
  "pow2 k = (if k = 0 then 1 else if 0 < k then 2 * pow2 (k - 1) else pow2 (k + 1) / 2)"
  by pat_completeness auto
termination
  by (relation "measure (\<lambda>k. nat \<bar>k\<bar>)") auto

declare pow2.simps [simp del]

function pow10 :: "int \<Rightarrow> rat" where
  "pow10 k = (if k = 0 then 1 else if 0 < k then 10 * pow10 (k - 1) else pow10 (k + 1) / 10)"
  by pat_completeness auto
termination
  by (relation "measure (\<lambda>k. nat \<bar>k\<bar>)") auto

declare pow10.simps [simp del]

text \<open>The \<open>e\<close> with \<open>2 ^ e \<le> a < 2 ^ (e + 1)\<close>, for a positive \<open>a\<close>.\<close>

definition ilog2 :: "rat \<Rightarrow> int" where
  "ilog2 a =
     (let k = bitlen (fst (quotient_of a)) - bitlen (snd (quotient_of a))
      in if pow2 k \<le> a then k else k - 1)"

text \<open>Rounding to the nearest integer, a tie to the even one.\<close>

definition round_half_even :: "rat \<Rightarrow> int" where
  "round_half_even x =
     (if x - of_int \<lfloor>x\<rfloor> < 1 / 2 then \<lfloor>x\<rfloor>
      else if 1 / 2 < x - of_int \<lfloor>x\<rfloor> then \<lfloor>x\<rfloor> + 1
      else if even \<lfloor>x\<rfloor> then \<lfloor>x\<rfloor> else \<lfloor>x\<rfloor> + 1)"

text \<open>
  The double nearest to a rational number (round to nearest, ties to even): 53 binary
  digits, the least exponent -1022 (smaller numbers are subnormal), infinity from
  \<open>2 ^ 1024\<close> on.
\<close>

definition rd :: "rat \<Rightarrow> pyfloat" where
  "rd q =
     (if q = 0 then Fin 0
      else if 1024 \<le> max (ilog2 \<bar>q\<bar>) (- 1022)
              \<or> (max (ilog2 \<bar>q\<bar>) (- 1022) = 1023
                  \<and> 9007199254740992
                       \<le> round_half_even (\<bar>q\<bar> / pow2 (max (ilog2 \<bar>q\<bar>) (- 1022) - 52)))
      then (if q < 0 then NInf else PInf)
      else Fin ((if q < 0 then - 1 else 1)
                * of_int (round_half_even (\<bar>q\<bar> / pow2 (max (ilog2 \<bar>q\<bar>) (- 1022) - 52)))
                * pow2 (max (ilog2 \<bar>q\<bar>) (- 1022) - 52)))"

definition is_digit_or_us :: "char \<Rightarrow> bool" where
  "is_digit_or_us c = (is_digit c \<or> c = CHR ''_'')"

text \<open>
  The unsigned decimal numerals that \<^verbatim>\<open>float()\<close> reads, with their exact value:
  \<^verbatim>\<open>[digitpart] "." digitpart | digitpart ["."]\<close>, then an optional exponent
  \<^verbatim>\<open>("e" | "E") ["+" | "-"] digitpart\<close>.
\<close>

definition float_number :: "string \<Rightarrow> rat option" where
  "float_number s =
     (let ip = takeWhile is_digit_or_us s;
          r1 = drop (length ip) s;
          dot = (r1 \<noteq> [] \<and> hd r1 = CHR ''.'');
          r2 = (if dot then tl r1 else r1);
          fp = (if dot then takeWhile is_digit_or_us r2 else []);
          r3 = drop (length fp) r2;
          has_exp = (r3 \<noteq> [] \<and> (hd r3 = CHR ''e'' \<or> hd r3 = CHR ''E''));
          r4 = (if has_exp then tl r3 else r3);
          neg = (r4 \<noteq> [] \<and> hd r4 = CHR ''-'');
          ex = (if r4 \<noteq> [] \<and> (hd r4 = CHR ''-'' \<or> hd r4 = CHR ''+'') then tl r4 else r4)
      in if (ip = [] \<or> int_body ip) \<and> (fp = [] \<or> int_body fp) \<and> (ip \<noteq> [] \<or> fp \<noteq> [])
            \<and> (if has_exp then int_body ex else r3 = [])
         then Some (of_int (digits_val (filter is_digit (ip @ fp)))
                    * pow10 ((if has_exp
                              then (if neg then - 1 else 1) * digits_val (filter is_digit ex)
                              else 0)
                             - int (length (filter is_digit fp))))
         else None)"

text \<open>
  \<^verbatim>\<open>float(s)\<close> of ASCII text; \<open>None\<close> is \<^verbatim>\<open>ValueError\<close>. Blanks at both ends and a
  sign are skipped, \<^verbatim>\<open>inf\<close>, \<^verbatim>\<open>infinity\<close> and \<^verbatim>\<open>nan\<close> are read in any case of letters,
  and a numeral is rounded to the nearest double.
\<close>

definition py_float :: "string \<Rightarrow> pyfloat option" where
  "py_float s =
     (let t = num_strip s;
          neg = (t \<noteq> [] \<and> hd t = CHR ''-'');
          b = (if t \<noteq> [] \<and> (hd t = CHR ''-'' \<or> hd t = CHR ''+'') then tl t else t)
      in if py_lower b = ''inf'' \<or> py_lower b = ''infinity'' then Some (if neg then NInf else PInf)
         else if py_lower b = ''nan'' then Some NaN
         else (case float_number b of
                 None \<Rightarrow> None
               | Some q \<Rightarrow> Some (rd (if neg then - q else q))))"

text \<open>\<^verbatim>\<open>x - c\<close> for a float \<open>x\<close> and a finite \<open>c\<close>.\<close>

definition fsub :: "pyfloat \<Rightarrow> rat \<Rightarrow> pyfloat" where
  "fsub x c = (case x of Fin a \<Rightarrow> rd (a - c) | PInf \<Rightarrow> PInf | NInf \<Rightarrow> NInf | NaN \<Rightarrow> NaN)"

text \<open>\<^verbatim>\<open>x > y\<close>: false when one of them is not a number.\<close>

fun fgt :: "pyfloat \<Rightarrow> pyfloat \<Rightarrow> bool" where
  "fgt NaN y = False"
| "fgt x NaN = False"
| "fgt (Fin a) (Fin b) = (b < a)"
| "fgt PInf PInf = False"
| "fgt PInf y = True"
| "fgt x PInf = False"
| "fgt NInf y = False"
| "fgt (Fin a) NInf = True"

text \<open>\<^verbatim>\<open>max(a, b)\<close>: the first argument, unless the second is greater.\<close>

definition py_max :: "pyfloat \<Rightarrow> pyfloat \<Rightarrow> pyfloat" where
  "py_max a b = (if fgt b a then b else a)"

text \<open>\<^verbatim>\<open>int(x)\<close> of a number: truncation towards zero.\<close>

definition py_trunc :: "rat \<Rightarrow> int" where
  "py_trunc x = (if x < 0 then \<lceil>x\<rceil> else \<lfloor>x\<rfloor>)"

text \<open>\<^verbatim>\<open>int(x)\<close> of a float: an infinity raises \<^verbatim>\<open>OverflowError\<close>, a NaN \<^verbatim>\<open>ValueError\<close>.\<close>

definition float_to_int :: "pyfloat \<Rightarrow> exn + int" where
  "float_to_int x =
     (case x of Fin a \<Rightarrow> Inr (py_trunc a) | PInf \<Rightarrow> Inl OverflowError
      | NInf \<Rightarrow> Inl OverflowError | NaN \<Rightarrow> Inl ValueError)"

definition lift :: "exn + 'a \<Rightarrow> 'a prog" where
  "lift r = (case r of Inl e \<Rightarrow> raise e | Inr x \<Rightarrow> ret x)"

subsection \<open>Base disk of a partition (boot.py:95)\<close>

text \<open>\<^verbatim>\<open>re.sub(r"\d+$", "", s)\<close> and \<^verbatim>\<open>re.sub(r"p\d+$", "", s)\<close>.\<close>

definition sub_digits :: "string \<Rightarrow> string" where
  "sub_digits s = rstrip_digits (re_body s) @ re_tail s"

definition sub_p_digits :: "string \<Rightarrow> string" where
  "sub_p_digits s =
     (let t = rstrip_digits (re_body s)
      in if trailing_digits (re_body s) \<noteq> [] \<and> t \<noteq> [] \<and> last t = CHR ''p''
         then butlast t @ re_tail s else s)"

definition get_base_disk_from_device :: "string \<Rightarrow> string" where
  "get_base_disk_from_device device_path =
     (if startswith device_path ''/dev/nvme'' \<or> startswith device_path ''/dev/mmcblk''
      then sub_p_digits device_path
      else sub_digits device_path)"

subsection \<open>Partition table inspector (boot.py:121-156)\<close>

text \<open>\<^verbatim>\<open>re.search(r"(\d+)$", dev_path)\<close>: the digits, or the empty string.\<close>

definition get_partition_number :: "string \<Rightarrow> string" where
  "get_partition_number dev_path = trailing_digits (re_body dev_path)"

definition parted_print_cmd :: "string \<Rightarrow> cmd" where
  "parted_print_cmd disk = [''parted'', ''-m'', disk, ''unit'', ''MiB'', ''print'', ''free'']"

definition query_parted :: "env \<Rightarrow> string \<Rightarrow> string list prog" where
  "query_parted E disk = (\<lambda>w.
     let w' = w\<lparr>trace := trace w @ [Query (parted_print_cmd disk)]\<rparr> in
     case parted_print E (trace w) disk of Inl e \<Rightarrow> (Inl e, w') | Inr ls \<Rightarrow> (Inr ls, w'))"

text \<open>The loop of \<^verbatim>\<open>_get_partition_end_mib\<close> over the lines of the listing.\<close>

fun partition_end :: "string \<Rightarrow> string \<Rightarrow> string list \<Rightarrow> exn + pyfloat" where
  "partition_end disk part_num [] = Inl RuntimeError"
| "partition_end disk part_num (line # ls) =
     (if line = [] \<or> startswith line ''BYT;'' \<or> startswith line disk
      then partition_end disk part_num ls
      else if hd (split_on CHR '':'' line) = part_num
      then (if length (split_on CHR '':'' line) < 3 then Inl IndexError
            else if endswith (split_on CHR '':'' line ! 2) ''MiB''
            then (case py_float (take (length (split_on CHR '':'' line ! 2) - 3)
                                      (split_on CHR '':'' line ! 2)) of
                    None \<Rightarrow> Inl ValueError
                  | Some v \<Rightarrow> Inr v)
            else partition_end disk part_num ls)
      else partition_end disk part_num ls)"

definition get_partition_end_mib :: "env \<Rightarrow> string \<Rightarrow> string \<Rightarrow> pyfloat prog" where
  "get_partition_end_mib E disk part_num =
     bnd (query_parted E disk) (\<lambda>ls. lift (partition_end disk part_num ls))"

text \<open>One round of the loop of \<^verbatim>\<open>_get_table_type_and_last_part\<close>.\<close>

definition table_step :: "string \<Rightarrow> string option \<times> int option \<Rightarrow> string \<Rightarrow> string option \<times> int option" where
  "table_step disk st line =
     (if startswith line disk
      then (if length (split_on CHR '':'' line) \<ge> 6
            then (Some (split_on CHR '':'' line ! 5), snd st) else st)
      else if line \<noteq> [] \<and> is_digit (hd line)
      then (case py_int (takeWhile (\<lambda>c. c \<noteq> CHR '':'') line) of
              None \<Rightarrow> st
            | Some val \<Rightarrow>
                if snd st = None \<or> val > the (snd st) then (fst st, Some val) else st)
      else st)"

definition table_info :: "string \<Rightarrow> string list \<Rightarrow> string \<times> int option" where
  "table_info disk ls =
     (let st = foldl (table_step disk) (None, None) ls
      in (if truthy (fst st) then the (fst st) else ''unknown'', snd st))"

definition get_table_type_and_last_part :: "env \<Rightarrow> string \<Rightarrow> (string \<times> int option) prog" where
  "get_table_type_and_last_part E disk =
     bnd (query_parted E disk) (\<lambda>ls. ret (table_info disk ls))"

subsection \<open>Shrink planner (\<^verbatim>\<open>_shrink_partition_free_space\<close>, boot.py:158-196)\<close>

text \<open>\<^verbatim>\<open>max(1.0, current_end - 1050.0)\<close>: boot.py:183.\<close>

definition new_end_of :: "pyfloat \<Rightarrow> pyfloat" where
  "new_end_of current_end = py_max (Fin 1) (fsub current_end 1050)"

text \<open>The command of boot.py:185, for the value of \<^verbatim>\<open>int(new_end)\<close>.\<close>

definition resizepart_cmd :: "string \<Rightarrow> string \<Rightarrow> int \<Rightarrow> cmd" where
  "resizepart_cmd base_disk part_num n =
     [''parted'', base_disk, ''--script'', ''unit'', ''MiB'', ''resizepart'', part_num,
      str_int n @ ''MiB'']"

text \<open>The part after the unmount: boot.py:170-193.\<close>

definition shrink_steps :: "env \<Rightarrow> string \<Rightarrow> string \<Rightarrow> string option \<Rightarrow> bool prog" where
  "shrink_steps E base_disk dev_path remount_after =
     thn (run_strict E [''e2fsck'', ''-f'', ''-y'', dev_path])
    (thn (run_strict E [''resize2fs'', ''-M'', dev_path])
    (let part_num = get_partition_number dev_path in
     if part_num = [] then thn (append_log ErrNoPartitionNumber) (ret False)
     else
       bnd (get_table_type_and_last_part E base_disk) (\<lambda>(table_type, last_part).
       if part_num \<noteq> str_opt_int last_part
       then thn (append_log (ErrNotLastPartition part_num (str_opt_int last_part))) (ret False)
       else
         bnd (get_partition_end_mib E base_disk part_num) (\<lambda>current_end.
         bnd (lift (float_to_int (new_end_of current_end))) (\<lambda>n.
         thn (run_strict E (resizepart_cmd base_disk part_num n))
        (thn (run_lax E [''partprobe'', base_disk])
        (thn (run_lax E [''udevadm'', ''settle''])
        (thn (case remount_after of
                None \<Rightarrow> ret ()
              | Some mp \<Rightarrow>
                  thn (append_log (MsgRemounting dev_path mp))
                 (thn (run_lax E [''mkdir'', ''-p'', mp])
                      (run_lax E [''mount'', dev_path, mp])))
             (ret True)))))))))"

definition shrink_body :: "env \<Rightarrow> string \<Rightarrow> string \<Rightarrow> string option \<Rightarrow> bool prog" where
  "shrink_body E base_disk dev_path current_mountpoint =
     thn (append_log MsgTryShrink)
     (if truthy current_mountpoint
      then (if current_mountpoint = Some ''/''
            then thn (append_log ErrMountedAsRoot) (ret False)
            else thn (append_log (MsgUnmounting dev_path (the current_mountpoint)))
                (thn (run_strict E [''umount'', dev_path])
                     (shrink_steps E base_disk dev_path current_mountpoint)))
      else shrink_steps E base_disk dev_path None)"

definition shrink_partition_free_space :: "env \<Rightarrow> string \<Rightarrow> string \<Rightarrow> string option \<Rightarrow> bool prog" where
  "shrink_partition_free_space E base_disk dev_path current_mountpoint =
     catch (shrink_body E base_disk dev_path current_mountpoint)
           (\<lambda>ex. thn (append_log (ErrShrinkFailed ex)) (ret False))"


subsection \<open>Boot partition creator (\<^verbatim>\<open>create_boot_partition_if_missing\<close>, boot.py:102-271)\<close>

definition seq :: "unit prog list \<Rightarrow> unit prog" where
  "seq ps = foldr thn ps (ret ())"

text \<open>\<^verbatim>\<open>try: ... except subprocess.CalledProcessError: ...\<close>: other exceptions pass through.\<close>

definition catch_cpe :: "'a prog \<Rightarrow> (int \<Rightarrow> cmd \<Rightarrow> 'a prog) \<Rightarrow> 'a prog" where
  "catch_cpe m h = (\<lambda>w. case m w of
       (Inl (CalledProcessError rc c), w') \<Rightarrow> h rc c w'
     | (r, w') \<Rightarrow> (r, w'))"

definition blkid_cmd :: "string \<Rightarrow> cmd" where
  "blkid_cmd dev = [''blkid'', ''-s'', ''UUID'', ''-o'', ''value'', dev]"

text \<open>\<^verbatim>\<open>subprocess.check_output(["blkid", ...], text=True).strip()\<close>.\<close>

definition query_blkid :: "env \<Rightarrow> string \<Rightarrow> string prog" where
  "query_blkid E dev = (\<lambda>w.
     let w' = w\<lparr>trace := trace w @ [Query (blkid_cmd dev)]\<rparr> in
     case blkid E (trace w) dev of Inl e \<Rightarrow> (Inl e, w') | Inr out \<Rightarrow> (Inr (py_strip out), w'))"

definition sq :: string where
  "sq = [CHR 0x27]"

definition dq :: string where
  "dq = [CHR 0x22]"

definition is_luks_fstype :: "string option \<Rightarrow> bool" where
  "is_luks_fstype dev_fstype =
     (py_lower (fmt_opt dev_fstype) = ''crypto_luks'' \<or> py_lower (fmt_opt dev_fstype) = ''luks'')"

definition mkpart_cmd :: "string \<Rightarrow> cmd" where
  "mkpart_cmd base_disk =
     [''parted'', base_disk, ''--script'', ''mkpart'', ''primary'', ''ext4'', ''-1050MiB'', ''-1MiB'']"

definition fstab_boot_line :: "string \<Rightarrow> string" where
  "fstab_boot_line boot_uuid =
     ''echo '' @ sq @ ''UUID='' @ boot_uuid @ '' /boot ext4 defaults 0 2'' @ sq @ '' >> /etc/fstab''"

text \<open>The paths of \<open>after\<close> that \<open>before\<close> does not have, sorted: boot.py:246-248.\<close>

definition new_paths :: "device list \<Rightarrow> device list \<Rightarrow> string list" where
  "new_paths parts_before after =
     sorted_list_of_set (set (map path after) - set (map path parts_before))"

text \<open>Formatting the new partition, copying \<^verbatim>\<open>/boot\<close>, the fstab entry: boot.py:254-271.\<close>

definition setup_boot :: "env \<Rightarrow> string \<Rightarrow> unit prog" where
  "setup_boot E new_boot =
     thn (append_log (MsgNewPartition new_boot))
    (thn (run_strict E [''mkfs.ext4'', ''-L'', ''BOOT'', new_boot])
    (thn (run_strict E [''mkdir'', ''-p'', ''/mnt/tmpboot''])
    (thn (run_strict E [''mount'', new_boot, ''/mnt/tmpboot''])
    (thn (run_strict E [''bash'', ''-c'', ''cp -a /boot/. /mnt/tmpboot/''])
    (thn (run_strict E [''umount'', ''/mnt/tmpboot''])
    (bnd (catch (bnd (query_blkid E new_boot) (\<lambda>u. ret (Some u)))
                (\<lambda>ex. thn (append_log (ErrNoUuid new_boot ex)) (ret None)))
         (\<lambda>r. case r of
                None \<Rightarrow> ret ()
              | Some boot_uuid \<Rightarrow>
                  thn (run_strict E [''bash'', ''-c'', fstab_boot_line boot_uuid])
                      (append_log MsgBootCreated))))))))"

text \<open>Detection of the new partition: boot.py:244-253.\<close>

definition install_boot :: "env \<Rightarrow> device list \<Rightarrow> unit prog" where
  "install_boot E parts_before =
     bnd (list_block_devices E) (\<lambda>after.
     let new_parts = new_paths parts_before after in
     if new_parts = [] then append_log ErrNewPartitionNotDetected
     else setup_boot E (last new_parts))"

text \<open>
  The choice of the partition to shrink and of its mountpoint: boot.py:199-216, after the
  inventory query. Nothing in the block raises, so its \<^verbatim>\<open>except Exception: pass\<close> is idle.
\<close>

definition choose_shrink_target :: "string \<Rightarrow> device list \<Rightarrow> (string \<times> string option) prog" where
  "choose_shrink_target device current =
     (case filter (\<lambda>p. mountpoint p = Some ''/'' \<and> dtype p = ''part'') current of
        p # _ \<Rightarrow>
          thn (whenp (path p \<noteq> device) (append_log (MsgUsingRoot (path p) device)))
              (ret (path p, Some ''/''))
      | [] \<Rightarrow>
          (case find (\<lambda>p. path p = device \<and> truthy (mountpoint p)) current of
             None \<Rightarrow> ret (device, None)
           | Some p \<Rightarrow> ret (device, mountpoint p)))"

text \<open>The creator after its first inventory snapshot: boot.py:110-271.\<close>

definition create_boot_after_snapshot :: "env \<Rightarrow> string \<Rightarrow> device list \<Rightarrow> unit prog" where
  "create_boot_after_snapshot E device parts_before =
     thn (append_log MsgFreeingTail)
    (let base_disk = get_base_disk_from_device device;
         dev_fstype = (case find (\<lambda>p. path p = device) parts_before of
                         None \<Rightarrow> None | Some p \<Rightarrow> fstype p);
         is_luks = is_luks_fstype dev_fstype
     in
     thn (whenp is_luks (append_log InfoLuksSelected))
    (bnd (list_block_devices E) (\<lambda>current.
     bnd (choose_shrink_target device current) (\<lambda>(shrink_target, shrink_mountpoint).
     bnd (get_table_type_and_last_part E base_disk) (\<lambda>(table_type, last_part).
     thn (append_log (MsgTable table_type (str_opt_int last_part)))
    (thn (if \<not> is_luks
          then thn (shrink_partition_free_space E base_disk shrink_target shrink_mountpoint) (ret ())
          else append_log InfoSkipShrinkLuks)
    (bnd (catch_cpe (thn (run_strict E (mkpart_cmd base_disk)) (ret True))
                    (\<lambda>rc c.
                       thn (whenp (py_lower table_type = ''msdos'') (append_log HintMsdos))
                      (thn (append_log (if is_luks then ErrNoBootLuks else ErrNoBoot))
                           (ret False))))
         (\<lambda>created.
            if \<not> created then ret ()
            else
              thn (run_lax E [''partprobe'', base_disk])
             (thn (run_lax E [''udevadm'', ''settle''])
                  (install_boot E parts_before))))))))))"

definition create_boot_partition_if_missing :: "env \<Rightarrow> string \<Rightarrow> unit prog" where
  "create_boot_partition_if_missing E device =
     bnd (list_block_devices E) (create_boot_after_snapshot E device)"

subsection \<open>Reencryption pipeline (\<^verbatim>\<open>_worker\<close> of pyrus.py and boot.py, \<^verbatim>\<open>main\<close> of Tpyrus.py)\<close>

datatype status = Completed | Failed

text \<open>
  The key file: pyrus.py:243-247. \<^verbatim>\<open>NamedTemporaryFile(delete=False)\<close> creates the file, the
  passphrase is written, and only then the name is stored in \<^verbatim>\<open>keyfile\<close>.
\<close>

definition make_keyfile :: "env \<Rightarrow> string prog" where
  "make_keyfile E = (\<lambda>w. case mktemp E (trace w) of
       TmpCreateFails \<Rightarrow> (Inl OSError, w)
     | TmpWriteFails n \<Rightarrow> (Inl OSError, w\<lparr>files := insert n (files w)\<rparr>)
     | TmpOk n \<Rightarrow> (Inr n, w\<lparr>files := insert n (files w)\<rparr>))"

text \<open>\<^verbatim>\<open>if keyfile and os.path.exists(keyfile): os.remove(keyfile)\<close>.\<close>

definition key_cleanup :: "string option \<Rightarrow> world \<Rightarrow> world" where
  "key_cleanup keyfile w =
     (if truthy keyfile \<and> the keyfile \<in> files w
      then w\<lparr>files := files w - {the keyfile}\<rparr> else w)"

text \<open>The two \<^verbatim>\<open>except\<close> clauses of the pipeline.\<close>

definition handlers :: "(exn + unit) \<times> world \<Rightarrow> status \<times> world" where
  "handlers rw =
     (case rw of
        (Inr u, w) \<Rightarrow> (Completed, w)
      | (Inl (CalledProcessError rc c), w) \<Rightarrow>
          (Failed, w\<lparr>trace := trace w @ [Log (ErrCommand rc c)]\<rparr>)
      | (Inl ex, w) \<Rightarrow> (Failed, w\<lparr>trace := trace w @ [Log (ErrUnexpected ex)]\<rparr>))"

definition fsck_cmd :: "string \<Rightarrow> cmd" where
  "fsck_cmd device = [''e2fsck'', ''-f'', ''-y'', device]"

definition minimize_cmd :: "string \<Rightarrow> cmd" where
  "minimize_cmd device = [''resize2fs'', ''-M'', device]"

definition reencrypt_cmd :: "string \<Rightarrow> string \<Rightarrow> string \<Rightarrow> cmd" where
  "reencrypt_cmd reduce_size keyfile device =
     [''cryptsetup'', ''reencrypt'', ''--batch-mode'', ''--encrypt'', ''--type'', ''luks2'',
      ''--hash'', ''sha256'', ''--pbkdf'', ''pbkdf2'', ''--reduce-device-size'', reduce_size,
      ''--key-file'', keyfile, device]"

definition chroot_run :: "string \<Rightarrow> cmd" where
  "chroot_run script = [''chroot'', ''/mnt/root'', ''/bin/bash'', ''-c'', script]"

text \<open>The loop over the inventory that mounts the EFI and boot partitions: pyrus.py:282-290.\<close>

fun mount_parts :: "env \<Rightarrow> device list \<Rightarrow> string option \<Rightarrow> string option prog" where
  "mount_parts E [] boot_uuid = ret boot_uuid"
| "mount_parts E (p # ps) boot_uuid =
     (if dtype p = ''part'' \<and> (fstype p = Some ''vfat'' \<or> fstype p = Some ''efi'')
      then bnd (query_blkid E (path p)) (\<lambda>efi_uuid.
           thn (run_lax E [''mkdir'', ''-p'', ''/mnt/root/boot/efi''])
          (thn (run_lax E [''mount'', ''UUID='' @ efi_uuid, ''/mnt/root/boot/efi''])
               (mount_parts E ps boot_uuid)))
      else if dtype p = ''part''
              \<and> (fstype p = Some ''ext2'' \<or> fstype p = Some ''ext3'' \<or> fstype p = Some ''ext4'')
      then bnd (query_blkid E (path p)) (\<lambda>u.
           thn (run_lax E [''mkdir'', ''-p'', ''/mnt/root/boot''])
          (thn (run_lax E [''mount'', ''UUID='' @ u, ''/mnt/root/boot''])
               (mount_parts E ps (Some u))))
      else mount_parts E ps boot_uuid)"

definition crypttab_line :: "string \<Rightarrow> string" where
  "crypttab_line uuid =
     ''echo '' @ sq @ ''cryptroot UUID='' @ uuid @ '' none luks'' @ sq @ '' > /etc/crypttab''"

definition fstab_root_line :: string where
  "fstab_root_line = ''echo '' @ sq @ ''/dev/mapper/cryptroot / ext4 defaults 0 1'' @ sq @ '' > /etc/fstab''"

definition grub_line :: "string \<Rightarrow> string" where
  "grub_line uuid =
     ''GRUB_CMDLINE_LINUX='' @ dq @ ''cryptdevice=UUID='' @ uuid
       @ '':cryptroot root=/dev/mapper/cryptroot'' @ dq"

definition grub_cmd :: "string \<Rightarrow> string" where
  "grub_cmd uuid =
     ''grep -q '' @ sq @ ''^GRUB_CMDLINE_LINUX'' @ sq @ '' /etc/default/grub && sed -i '' @ sq
       @ ''s|^GRUB_CMDLINE_LINUX.*|'' @ grub_line uuid @ ''|'' @ sq @ '' /etc/default/grub || echo ''
       @ sq @ grub_line uuid @ sq @ '' >> /etc/default/grub''"

text \<open>Opening the container and mounting the system: pyrus.py:271-295, boot.py:564-588.\<close>

definition open_and_mount :: "env \<Rightarrow> string \<Rightarrow> string \<Rightarrow> string option prog" where
  "open_and_mount E device keyfile =
     thn (run_strict E [''cryptsetup'', ''open'', device, ''cryptroot'', ''--key-file'', keyfile])
    (thn (run_lax E [''e2fsck'', ''-f'', ''/dev/mapper/cryptroot''])
    (thn (run_lax E [''resize2fs'', ''/dev/mapper/cryptroot''])
    (thn (run_lax E [''mkdir'', ''-p'', ''/mnt/root''])
    (thn (run_lax E [''mount'', ''/dev/mapper/cryptroot'', ''/mnt/root''])
    (bnd (list_block_devices E) (\<lambda>parts.
     bnd (mount_parts E parts None) (\<lambda>boot_uuid.
     thn (run_lax E [''mount'', ''--bind'', ''/dev'', ''/mnt/root/dev''])
    (thn (run_lax E [''mount'', ''--bind'', ''/proc'', ''/mnt/root/proc''])
    (thn (run_lax E [''mount'', ''--bind'', ''/sys'', ''/mnt/root/sys''])
    (thn (run_lax E [''mount'', ''--bind'', ''/run'', ''/mnt/root/run''])
         (ret boot_uuid)))))))))))"

text \<open>System integration as pyrus.py:269-314 and Tpyrus.py:203-247 have it.\<close>

definition chroot_stage :: "env \<Rightarrow> string \<Rightarrow> string \<Rightarrow> unit prog" where
  "chroot_stage E device keyfile =
     thn (append_log MsgStepChroot)
    (bnd (query_blkid E device) (\<lambda>uuid.
     bnd (open_and_mount E device keyfile) (\<lambda>boot_uuid.
     seq [run_lax E (chroot_run (crypttab_line uuid)),
          run_lax E (chroot_run fstab_root_line),
          append_log MsgInitramfs,
          run_strict E (chroot_run ''update-initramfs -u -k all''),
          run_strict E (chroot_run (grub_cmd uuid)),
          run_strict E (chroot_run (''grub-install '' @ rstrip_digits device)),
          run_strict E (chroot_run ''update-grub'')])))"

text \<open>System integration as boot.py:562-609 has it.\<close>

definition chroot_stage_boot :: "env \<Rightarrow> string \<Rightarrow> string \<Rightarrow> unit prog" where
  "chroot_stage_boot E device keyfile =
     thn (append_log MsgStepChroot)
    (bnd (query_blkid E device) (\<lambda>uuid.
     bnd (open_and_mount E device keyfile) (\<lambda>boot_uuid.
     seq [run_lax E (chroot_run (crypttab_line uuid)),
          run_lax E (chroot_run fstab_root_line),
          whenp (truthy boot_uuid) (run_lax E (chroot_run (fstab_boot_line (the boot_uuid)))),
          append_log MsgInitramfs,
          run_strict E (chroot_run ''update-initramfs -u -k all''),
          run_strict E (chroot_run (grub_cmd uuid))])))"

text \<open>The steps between the key file and the handlers: pyrus.py:249-316, Tpyrus.py:183-249.\<close>

definition pipeline :: "env \<Rightarrow> string \<Rightarrow> string \<Rightarrow> bool \<Rightarrow> bool \<Rightarrow> bool \<Rightarrow> string \<Rightarrow> unit prog" where
  "pipeline E device reduce_size run_fsck run_minimize run_chroot keyfile =
     seq [whenp run_fsck (thn (append_log MsgStepFsck)
                              (run_strict E (fsck_cmd device))),
          whenp run_minimize (thn (append_log MsgStepMinimize)
                                  (run_strict E (minimize_cmd device))),
          append_log MsgStepReencrypt,
          run_strict E (reencrypt_cmd reduce_size keyfile device),
          whenp run_chroot (chroot_stage E device keyfile),
          append_log MsgCompleted]"

text \<open>The same for boot.py:523-612, with the optional creation of the boot partition.\<close>

definition pipeline_boot ::
  "env \<Rightarrow> string \<Rightarrow> string \<Rightarrow> bool \<Rightarrow> bool \<Rightarrow> bool \<Rightarrow> bool \<Rightarrow> string \<Rightarrow> unit prog" where
  "pipeline_boot E device reduce_size run_fsck run_minimize run_boot run_chroot keyfile =
     seq [whenp run_fsck (thn (append_log MsgStepFsck)
                              (run_strict E (fsck_cmd device))),
          whenp run_minimize (thn (append_log MsgStepMinimize)
                                  (run_strict E (minimize_cmd device))),
          whenp run_boot (thn (append_log MsgStepBoot)
                              (catch (create_boot_partition_if_missing E device)
                                     (\<lambda>ex. append_log (WarnBootFailed ex)))),
          append_log MsgStepReencrypt,
          run_strict E (reencrypt_cmd reduce_size keyfile device),
          whenp run_chroot (chroot_stage_boot E device keyfile),
          append_log MsgCompleted]"

text \<open>
  \<^verbatim>\<open>try: ... except ...: ... finally: ...\<close> around the steps \<open>steps keyfile\<close>: the variable
  \<^verbatim>\<open>keyfile\<close> is \<^verbatim>\<open>None\<close> until the key file block has run to its end.
\<close>

definition guarded :: "env \<Rightarrow> (string \<Rightarrow> unit prog) \<Rightarrow> world \<Rightarrow> status \<times> world" where
  "guarded E steps w =
     (case make_keyfile E w of
        (Inl ex, w1) \<Rightarrow>
          (case handlers (Inl ex, w1) of (st, w2) \<Rightarrow> (st, key_cleanup None w2))
      | (Inr keyfile, w1) \<Rightarrow>
          (case handlers (steps keyfile w1) of (st, w2) \<Rightarrow> (st, key_cleanup (Some keyfile) w2)))"

text \<open>\<^verbatim>\<open>_worker\<close> of pyrus.py and the pipeline of \<^verbatim>\<open>main\<close> in Tpyrus.py; the passphrase is what
  the key file block writes.\<close>

definition worker :: "env \<Rightarrow> string \<Rightarrow> string \<Rightarrow> bool \<Rightarrow> bool \<Rightarrow> bool \<Rightarrow> world \<Rightarrow> status \<times> world" where
  "worker E device reduce_size run_fsck run_minimize run_chroot =
     guarded E (pipeline E device reduce_size run_fsck run_minimize run_chroot)"

text \<open>\<^verbatim>\<open>_worker\<close> of boot.py.\<close>

definition worker_boot ::
  "env \<Rightarrow> string \<Rightarrow> string \<Rightarrow> bool \<Rightarrow> bool \<Rightarrow> bool \<Rightarrow> bool \<Rightarrow> world \<Rightarrow> status \<times> world" where
  "worker_boot E device reduce_size run_fsck run_minimize run_boot run_chroot =
     guarded E (pipeline_boot E device reduce_size run_fsck run_minimize run_boot run_chroot)"

text \<open>What a run added to the trace.\<close>

definition new_events :: "world \<Rightarrow> world \<Rightarrow> event list" where
  "new_events w w' = drop (length (trace w)) (trace w')"

text \<open>The commands of a trace, queries included, in order.\<close>

fun invoked :: "event list \<Rightarrow> cmd list" where
  "invoked [] = []"
| "invoked (Run c # evs) = c # invoked evs"
| "invoked (Query c # evs) = c # invoked evs"
| "invoked (Log m # evs) = invoked evs"


subsection \<open>Partition numbers of a listing\<close>

text \<open>
  The identifiers of the numeric lines of a listing, in order: the lines that do not start
  with the disk path, start with a digit, and whose first field \<^verbatim>\<open>int\<close> reads.
\<close>

definition line_id :: "string \<Rightarrow> string \<Rightarrow> int option" where
  "line_id disk line =
     (if \<not> startswith line disk \<and> line \<noteq> [] \<and> is_digit (hd line)
      then py_int (takeWhile (\<lambda>c. c \<noteq> CHR '':'') line) else None)"

definition numeric_ids :: "string \<Rightarrow> string list \<Rightarrow> int list" where
  "numeric_ids disk ls = List.map_filter (line_id disk) ls"

subsection \<open>Sample environments\<close>

definition w0 :: world where
  "w0 = \<lparr>trace = [], files = {}\<rparr>"

text \<open>An environment that gives the same answers whatever the history.\<close>

definition env_const ::
  "(cmd \<Rightarrow> proc_result) \<Rightarrow> node list option \<Rightarrow> exn + string list \<Rightarrow> exn + string \<Rightarrow> tmp_outcome \<Rightarrow> env" where
  "env_const p l g b t =
     \<lparr>proc = (\<lambda>h. p), lsblk = (\<lambda>h. l), parted_print = (\<lambda>h d. g), blkid = (\<lambda>h d. b),
      mktemp = (\<lambda>h. t)\<rparr>"

definition leaf :: "string \<Rightarrow> string \<Rightarrow> string \<Rightarrow> jfield \<Rightarrow> jfield \<Rightarrow> node list \<Rightarrow> node" where
  "leaf nm ty sz mpt fty chs = Node (JStr nm) (JStr ty) (JStr sz) (JStr (''/dev/'' @ nm)) mpt fty chs"

text \<open>The inventory of scenario 1, with a loop device and an opened container besides.\<close>

definition lsblk_sda :: "node list" where
  "lsblk_sda =
     [leaf ''loop0'' ''loop'' ''4K'' JNull JNull [],
      leaf ''sda'' ''disk'' ''20G'' JNull JNull
        [leaf ''sda1'' ''part'' ''20G'' (JStr ''/'') (JStr ''ext4'')
           [leaf ''cryptroot'' ''crypt'' ''20G'' JNull JNull []]]]"

text \<open>The listing of scenario 3: partition 1 ends at 10000MiB, partition 2 at 20000MiB.\<close>

definition listing_two :: "string list" where
  "listing_two =
     [''BYT;'',
      ''/dev/sda:20480MiB:scsi:512:512:gpt:ATA VBOX HARDDISK:;'',
      ''1:1.00MiB:10000MiB:9999MiB:ext4::;'',
      ''2:10000MiB:20000MiB:10000MiB:ext4::;'']"

text \<open>A listing of a disk without partitions.\<close>

definition listing_empty :: "string list" where
  "listing_empty = [''BYT;'', ''/dev/sda:20480MiB:scsi:512:512:gpt:ATA VBOX HARDDISK:;'']"

text \<open>Every command exits with 0; the inventory and the listing are those above.\<close>

definition env_sda :: env where
  "env_sda = env_const (\<lambda>c. Rc 0) (Some lsblk_sda) (Inr listing_two) (Inr ''0a1b-2c3d'')
     (TmpOk ''/tmp/tmpk3y'')"

text \<open>The same with a disk that has no partition.\<close>

definition env_nopart :: env where
  "env_nopart = env_const (\<lambda>c. Rc 0) (Some lsblk_sda) (Inr listing_empty) (Inr ''0a1b-2c3d'')
     (TmpOk ''/tmp/tmpk3y'')"

text \<open>As \<open>env_sda\<close>, but \<^verbatim>\<open>e2fsck\<close> exits with 1 (errors corrected).\<close>

definition env_fsck_fails :: env where
  "env_fsck_fails = env_const (\<lambda>c. if hd c = ''e2fsck'' then Rc 1 else Rc 0) (Some lsblk_sda)
     (Inr listing_two) (Inr ''0a1b-2c3d'') (TmpOk ''/tmp/tmpk3y'')"



text \<open>An NVMe disk with an EFI partition, a boot partition and the target.\<close>

definition lsblk_nvme :: "node list" where
  "lsblk_nvme =
     [leaf ''nvme0n1'' ''disk'' ''477G'' JNull JNull
        [leaf ''nvme0n1p1'' ''part'' ''512M'' JNull (JStr ''vfat'') [],
         leaf ''nvme0n1p2'' ''part'' ''1G'' JNull (JStr ''ext4'') [],
         leaf ''nvme0n1p3'' ''part'' ''475G'' JNull (JStr ''ext4'') []]]"

definition env_nvme :: env where
  "env_nvme = env_const (\<lambda>c. Rc 0) (Some lsblk_nvme) (Inr []) (Inr ''0a1b-2c3d'')
     (TmpOk ''/tmp/tmpk3y'')"

subsection \<open>Notions used by the properties\<close>

text \<open>
  \<open>sat m Q\<close>: from every state, \<open>m\<close> only appends events to the trace, and the events it
  appends and its result satisfy \<open>Q\<close>.
\<close>

definition sat :: "'a prog \<Rightarrow> (event list \<Rightarrow> exn + 'a \<Rightarrow> bool) \<Rightarrow> bool" where
  "sat m Q = (\<forall>w. \<exists>evs. snd (m w) = w\<lparr>trace := trace w @ evs\<rparr> \<and> Q evs (fst (m w)))"

text \<open>
  The candidate is the last partition of the disk: the number at the end of its path is the
  highest partition number of the listing.
\<close>

definition is_last_partition :: "string \<Rightarrow> string \<Rightarrow> string list \<Rightarrow> bool" where
  "is_last_partition disk dev_path ls =
     (get_partition_number dev_path \<noteq> []
      \<and> snd (table_info disk ls) = Some (digits_val (get_partition_number dev_path)))"

text \<open>A call of the table editor.\<close>

fun is_parted_run :: "event \<Rightarrow> bool" where
  "is_parted_run (Run (c # args)) = (c = ''parted'')"
| "is_parted_run ev = False"

text \<open>
  The lines of a listing, its header line aside, whose first field is \<open>part_num\<close>. (In
  the listing that \<^verbatim>\<open>parted -m ... print free\<close> prints, the lines of free space carry the
  number 1.)
\<close>

definition rows_numbered :: "string \<Rightarrow> string \<Rightarrow> string list \<Rightarrow> string list" where
  "rows_numbered disk part_num ls =
     filter (\<lambda>l. \<not> startswith l disk \<and> hd (split_on CHR '':'' l) = part_num) ls"

text \<open>
  The end offset that a line reports: its third field, which carries the unit tag
  \<^verbatim>\<open>MiB\<close>, as \<^verbatim>\<open>float\<close> reads it.
\<close>

definition reported_end :: "string \<Rightarrow> pyfloat option" where
  "reported_end row =
     (if 3 \<le> length (split_on CHR '':'' row) \<and> endswith (split_on CHR '':'' row ! 2) ''MiB''
      then py_float (take (length (split_on CHR '':'' row ! 2) - 3) (split_on CHR '':'' row ! 2))
      else None)"

text \<open>
  The resize of entry \<open>part_num\<close> that the end offset of its line calls for: for some
  answer of the geometry query in which \<open>row\<close> is the only line numbered \<open>part_num\<close>, and
  \<open>current_end\<close> the end offset it reports, the entry is resized to
  \<^verbatim>\<open>max(1.0, current_end - 1050.0)\<close> cut to a whole number of MiB.
\<close>

definition resize_event :: "env \<Rightarrow> string \<Rightarrow> string \<Rightarrow> event \<Rightarrow> bool" where
  "resize_event E disk part_num ev =
     (\<exists>h ls row current_end y.
        parted_print E h disk = Inr ls \<and> rows_numbered disk part_num ls = [row]
        \<and> reported_end row = Some current_end
        \<and> py_max (Fin 1) (fsub current_end 1050) = Fin y
        \<and> ev = Run [''parted'', disk, ''--script'', ''unit'', ''MiB'', ''resizepart'', part_num,
                     str_int \<lfloor>y\<rfloor> @ ''MiB''])"

text \<open>Every call of the table editor among the events is such a resize.\<close>

definition only_resizes :: "env \<Rightarrow> string \<Rightarrow> string \<Rightarrow> event list \<Rightarrow> bool" where
  "only_resizes E disk part_num evs =
     list_all (\<lambda>ev. \<not> is_parted_run ev \<or> resize_event E disk part_num ev) evs"

text \<open>A call of \<^verbatim>\<open>mount\<close>.\<close>

fun is_mount_run :: "event \<Rightarrow> bool" where
  "is_mount_run (Run (c # args)) = (c = ''mount'')"
| "is_mount_run ev = False"


text \<open>The log message of the two handlers of the pipeline.\<close>

definition handler_log :: "exn + unit \<Rightarrow> event list" where
  "handler_log r =
     (case r of
        Inr u \<Rightarrow> []
      | Inl (CalledProcessError rc c) \<Rightarrow> [Log (ErrCommand rc c)]
      | Inl ex \<Rightarrow> [Log (ErrUnexpected ex)])"


text \<open>
  A listing as \<^verbatim>\<open>parted -m /dev/sda unit MiB print free\<close> prints it for a disk with one
  partition and free space before and after it.
\<close>

definition listing_free :: "string list" where
  "listing_free =
     [''BYT;'',
      ''/dev/sda:20480MiB:scsi:512:512:gpt:ATA VBOX HARDDISK:;'',
      ''1:0.02MiB:1.00MiB:0.98MiB:free;'',
      ''1:1.00MiB:20479MiB:20478MiB:ext4::;'',
      ''1:20479MiB:20480MiB:1.00MiB:free;'']"


definition env_free :: env where
  "env_free = env_const (\<lambda>c. Rc 0) (Some lsblk_sda) (Inr listing_free) (Inr ''0a1b-2c3d'')
     (TmpOk ''/tmp/tmpk3y'')"

text \<open>
  An environment in which the temporary file is created and writing the passphrase to it
  fails (the file system of the temporary directory is full, say).
\<close>

definition env_write_fails :: env where
  "env_write_fails = env_const (\<lambda>c. Rc 0) (Some lsblk_sda) (Inr listing_two) (Inr ''0a1b-2c3d'')
     (TmpWriteFails ''/tmp/tmpk3y'')"

section \<open>Properties\<close>

lemmas prog_defs = ret_def raise_def bnd_def thn_def catch_def emit_def append_log_def
  whenp_def run_strict_def run_lax_def run_and_stream_def lift_def

subsection \<open>Device inventory\<close>

lemma walk_dtype: "d \<in> set (walk n) \<Longrightarrow> dtype d = ''disk'' \<or> dtype d = ''part''"
proof (induction n arbitrary: d)
  case (Node nm ty sz pth mpt fty chs)
  then show ?case by (auto split: if_splits)
qed

lemma inventory_dtype: "d \<in> set (inventory r) \<Longrightarrow> dtype d = ''disk'' \<or> dtype d = ''part''"
  by (auto simp: inventory_def dest: walk_dtype split: option.splits)

lemma inventory_sorted: "sorted (map path (inventory r))"
  by (simp add: inventory_def split: option.splits)

lemma inventory_sda:
  "inventory (Some lsblk_sda) =
     [\<lparr>path = ''/dev/sda'', dtype = ''disk'', size = Some ''20G'', mountpoint = None,
       fstype = None\<rparr>,
      \<lparr>path = ''/dev/sda1'', dtype = ''part'', size = Some ''20G'', mountpoint = Some ''/'',
       fstype = Some ''ext4''\<rparr>]"
  by code_simp

text \<open>
  C9. Whatever the tool answers, \<^verbatim>\<open>list_block_devices\<close> returns a list (it never raises)
  that is sorted by path and whose entries all have the type \<^verbatim>\<open>disk\<close> or \<^verbatim>\<open>part\<close>.
\<close>

theorem inventory_sorted_kinds:
  "list_block_devices E w = (r, w') \<Longrightarrow>
   \<exists>ds. r = Inr ds \<and> sorted (map path ds) \<and> (\<forall>d\<in>set ds. dtype d = ''disk'' \<or> dtype d = ''part'')"
  by (auto simp: list_block_devices_def inventory_sorted dest: inventory_dtype)

theorem inventory_sorted_kinds_witness:
  "fst (list_block_devices env_sda w0) = Inr (inventory (Some lsblk_sda))
   \<and> map path (inventory (Some lsblk_sda)) = [''/dev/sda'', ''/dev/sda1'']
   \<and> sorted (map path (inventory (Some lsblk_sda)))
   \<and> map dtype (inventory (Some lsblk_sda)) = [''disk'', ''part'']"
proof -
  have run: "list_block_devices env_sda w0
     = (Inr (inventory (Some lsblk_sda)), w0\<lparr>trace := trace w0 @ [Query lsblk_cmd]\<rparr>)"
    by (simp add: list_block_devices_def env_sda_def env_const_def)
  from inventory_sorted_kinds[OF run]
  have "sorted (map path (inventory (Some lsblk_sda)))" by simp
  then show ?thesis by (simp add: run inventory_sda)
qed

subsection \<open>Partition table inspector\<close>

lemma numeric_ids_Nil: "numeric_ids disk [] = []"
  by (simp add: numeric_ids_def List.map_filter_simps)

lemma numeric_ids_Cons:
  "numeric_ids disk (l # ls) =
     (case line_id disk l of None \<Rightarrow> numeric_ids disk ls | Some v \<Rightarrow> v # numeric_ids disk ls)"
  by (simp add: numeric_ids_def List.map_filter_simps split: option.splits)

lemma table_step_snd:
  "snd (table_step disk st l) =
     (case line_id disk l of
        None \<Rightarrow> snd st
      | Some v \<Rightarrow> (case snd st of None \<Rightarrow> Some v | Some m \<Rightarrow> Some (max m v)))"
  by (auto simp: table_step_def line_id_def max_def split: option.splits)

lemma Max_cons_max: "Max (set (max m v # vs)) = Max (set (m # v # (vs :: int list)))"
  by (cases "vs = []") (simp_all add: max.assoc)

lemma foldl_table_step_snd:
  "snd (foldl (table_step disk) st ls) =
     (case snd st of
        None \<Rightarrow> (if numeric_ids disk ls = [] then None else Some (Max (set (numeric_ids disk ls))))
      | Some m \<Rightarrow> Some (Max (set (m # numeric_ids disk ls))))"
proof (induction ls arbitrary: st)
  case Nil
  then show ?case by (simp add: numeric_ids_Nil split: option.splits)
next
  case (Cons l ls)
  show ?case
  proof (cases "line_id disk l")
    case None
    then show ?thesis
      by (simp add: Cons.IH table_step_snd numeric_ids_Cons split: option.splits)
  next
    case (Some v)
    show ?thesis
    proof (cases "snd st")
      case None
      with Some show ?thesis
        by (simp add: Cons.IH table_step_snd numeric_ids_Cons)
    next
      case (Some m)
      with \<open>line_id disk l = Some v\<close> show ?thesis
        using Max_cons_max[of m v "numeric_ids disk ls"]
        by (simp add: Cons.IH table_step_snd numeric_ids_Cons)
    qed
  qed
qed

lemma table_info_last:
  "snd (table_info disk ls) =
     (if numeric_ids disk ls = [] then None else Some (Max (set (numeric_ids disk ls))))"
  by (simp add: table_info_def Let_def foldl_table_step_snd)

text \<open>
  C5, as the claim has it, fails: on a listing without numeric lines
  \<^verbatim>\<open>_get_table_type_and_last_part\<close> does not fail; it returns the scheme label and \<^verbatim>\<open>None\<close>.
\<close>

theorem table_info_no_partitions_returns:
  "fst (get_table_type_and_last_part env_nopart ''/dev/sda'' w0) = Inr (''gpt'', None)"
  by code_simp

text \<open>
  C5, amended. When the geometry query answers, \<^verbatim>\<open>_get_table_type_and_last_part\<close> returns
  normally; the highest partition number is \<^verbatim>\<open>None\<close> when the listing has no numeric line,
  and the maximum of the identifiers of its numeric lines otherwise.
\<close>

theorem table_info_highest:
  "parted_print E (trace w) disk = Inr ls \<Longrightarrow>
   fst (get_table_type_and_last_part E disk w) =
     Inr (fst (table_info disk ls),
          if numeric_ids disk ls = [] then None else Some (Max (set (numeric_ids disk ls))))"
  using table_info_last[of disk ls]
  by (simp add: get_table_type_and_last_part_def query_parted_def prog_defs Let_def split: prod.splits)
     (metis prod.collapse)

theorem table_info_highest_witness:
  "parted_print env_sda (trace w0) ''/dev/sda'' = Inr listing_two
   \<and> numeric_ids ''/dev/sda'' listing_two = [1, 2]
   \<and> fst (get_table_type_and_last_part env_sda ''/dev/sda'' w0) = Inr (''gpt'', Some 2)"
proof -
  have h: "parted_print env_sda (trace w0) ''/dev/sda'' = Inr listing_two"
    by (simp add: env_sda_def env_const_def)
  have n: "numeric_ids ''/dev/sda'' listing_two = [1, 2]"
    by code_simp
  have t: "fst (table_info ''/dev/sda'' listing_two) = ''gpt''"
    by code_simp
  show ?thesis
    using table_info_highest[OF h] h by (simp add: n t)
qed

subsection \<open>Shrink planner\<close>

text \<open>
  C3. With the mountpoint \<^verbatim>\<open>/\<close> the shrink planner returns \<^verbatim>\<open>False\<close>, and all it leaves in
  the trace are two log messages: no command is started and no query is made.
\<close>

theorem shrink_refuses_root:
  "shrink_partition_free_space E base_disk dev_path (Some ''/'') w
     = (Inr False, w\<lparr>trace := trace w @ [Log MsgTryShrink, Log ErrMountedAsRoot]\<rparr>)"
  by (simp add: shrink_partition_free_space_def shrink_body_def truthy_def prog_defs)

subsection \<open>Rules for \<open>sat\<close>\<close>

named_theorems sat_intros

lemma sat_ret [sat_intros]: "Q [] (Inr x) \<Longrightarrow> sat (ret x) Q"
  by (auto simp: sat_def ret_def intro: exI[of _ "[]"])

lemma sat_raise [sat_intros]: "Q [] (Inl e) \<Longrightarrow> sat (raise e) Q"
  by (auto simp: sat_def raise_def intro: exI[of _ "[]"])

lemma sat_append_log [sat_intros]: "Q [Log m] (Inr ()) \<Longrightarrow> sat (append_log m) Q"
  by (auto simp: sat_def append_log_def emit_def)

lemma sat_bnd [sat_intros]:
  assumes "sat m (\<lambda>evs r. case r of Inl e \<Rightarrow> Q evs (Inl e)
                          | Inr x \<Rightarrow> sat (f x) (\<lambda>evs' r'. Q (evs @ evs') r'))"
  shows "sat (bnd m f) Q"
  unfolding sat_def
proof
  fix w
  from assms obtain evs where m: "snd (m w) = w\<lparr>trace := trace w @ evs\<rparr>"
    and c: "case fst (m w) of Inl e \<Rightarrow> Q evs (Inl e)
            | Inr x \<Rightarrow> sat (f x) (\<lambda>evs' r'. Q (evs @ evs') r')"
    unfolding sat_def by blast
  show "\<exists>evs. snd (bnd m f w) = w\<lparr>trace := trace w @ evs\<rparr> \<and> Q evs (fst (bnd m f w))"
  proof (cases "fst (m w)")
    case (Inl e)
    with m c show ?thesis
      by (cases "m w") (auto simp: bnd_def)
  next
    case (Inr x)
    with c have "sat (f x) (\<lambda>evs' r'. Q (evs @ evs') r')" by simp
    from this[unfolded sat_def, rule_format, of "w\<lparr>trace := trace w @ evs\<rparr>"]
    obtain evs' where
      "snd (f x (w\<lparr>trace := trace w @ evs\<rparr>)) = w\<lparr>trace := trace w @ evs @ evs'\<rparr>"
      "Q (evs @ evs') (fst (f x (w\<lparr>trace := trace w @ evs\<rparr>)))"
      by auto
    with m Inr show ?thesis
      by (cases "m w") (auto simp: bnd_def)
  qed
qed

lemma sat_thn [sat_intros]:
  "sat m (\<lambda>evs r. case r of Inl e \<Rightarrow> Q evs (Inl e)
                  | Inr x \<Rightarrow> sat n (\<lambda>evs' r'. Q (evs @ evs') r')) \<Longrightarrow> sat (thn m n) Q"
  unfolding thn_def by (rule sat_bnd)

lemma sat_catch [sat_intros]:
  assumes "sat m (\<lambda>evs r. case r of Inl e \<Rightarrow> sat (h e) (\<lambda>evs' r'. Q (evs @ evs') r')
                          | Inr x \<Rightarrow> Q evs (Inr x))"
  shows "sat (catch m h) Q"
  unfolding sat_def
proof
  fix w
  from assms obtain evs where m: "snd (m w) = w\<lparr>trace := trace w @ evs\<rparr>"
    and c: "case fst (m w) of Inl e \<Rightarrow> sat (h e) (\<lambda>evs' r'. Q (evs @ evs') r')
            | Inr x \<Rightarrow> Q evs (Inr x)"
    unfolding sat_def by blast
  show "\<exists>evs. snd (catch m h w) = w\<lparr>trace := trace w @ evs\<rparr> \<and> Q evs (fst (catch m h w))"
  proof (cases "fst (m w)")
    case (Inr x)
    with m c show ?thesis
      by (cases "m w") (auto simp: catch_def)
  next
    case (Inl e)
    with c have "sat (h e) (\<lambda>evs' r'. Q (evs @ evs') r')" by simp
    from this[unfolded sat_def, rule_format, of "w\<lparr>trace := trace w @ evs\<rparr>"]
    obtain evs' where
      "snd (h e (w\<lparr>trace := trace w @ evs\<rparr>)) = w\<lparr>trace := trace w @ evs @ evs'\<rparr>"
      "Q (evs @ evs') (fst (h e (w\<lparr>trace := trace w @ evs\<rparr>)))"
      by auto
    with m Inl show ?thesis
      by (cases "m w") (auto simp: catch_def)
  qed
qed

lemma sat_catch_cpe [sat_intros]:
  assumes "sat m (\<lambda>evs r. case r of
                     Inl (CalledProcessError rc c) \<Rightarrow> sat (h rc c) (\<lambda>evs' r'. Q (evs @ evs') r')
                   | _ \<Rightarrow> Q evs r)"
  shows "sat (catch_cpe m h) Q"
  unfolding sat_def
proof
  fix w
  from assms obtain evs where m: "snd (m w) = w\<lparr>trace := trace w @ evs\<rparr>"
    and c: "case fst (m w) of
              Inl (CalledProcessError rc c) \<Rightarrow> sat (h rc c) (\<lambda>evs' r'. Q (evs @ evs') r')
            | _ \<Rightarrow> Q evs (fst (m w))"
    unfolding sat_def by blast
  show "\<exists>evs. snd (catch_cpe m h w) = w\<lparr>trace := trace w @ evs\<rparr> \<and> Q evs (fst (catch_cpe m h w))"
  proof (cases "\<exists>rc c. fst (m w) = Inl (CalledProcessError rc c)")
    case False
    with m c show ?thesis
      by (cases "m w") (auto simp: catch_cpe_def split: sum.splits exn.splits)
  next
    case True
    then obtain rc cm where e: "fst (m w) = Inl (CalledProcessError rc cm)" by blast
    with c have "sat (h rc cm) (\<lambda>evs' r'. Q (evs @ evs') r')" by simp
    from this[unfolded sat_def, rule_format, of "w\<lparr>trace := trace w @ evs\<rparr>"]
    obtain evs' where
      "snd (h rc cm (w\<lparr>trace := trace w @ evs\<rparr>)) = w\<lparr>trace := trace w @ evs @ evs'\<rparr>"
      "Q (evs @ evs') (fst (h rc cm (w\<lparr>trace := trace w @ evs\<rparr>)))"
      by auto
    with m e show ?thesis
      by (cases "m w") (auto simp: catch_cpe_def)
  qed
qed

lemma sat_run_strict [sat_intros]:
  assumes "\<And>h. case proc E h c of
          StartFails \<Rightarrow> Q [] (Inl OSError)
        | Rc rc \<Rightarrow> if rc \<noteq> 0 then Q [Run c] (Inl (CalledProcessError rc c))
                   else Q [Run c] (Inr ())"
  shows "sat (run_strict E c) Q"
  unfolding sat_def
proof
  fix w
  show "\<exists>evs. snd (run_strict E c w) = w\<lparr>trace := trace w @ evs\<rparr> \<and> Q evs (fst (run_strict E c w))"
  proof (cases "proc E (trace w) c")
    case StartFails
    with assms[of "trace w"] have "Q [] (Inl OSError)" by simp
    with StartFails show ?thesis
      by (intro exI[of _ "[]"]) (simp add: run_strict_def run_and_stream_def thn_def bnd_def ret_def)
  next
    case (Rc rc)
    with assms[of "trace w"]
    have "if rc \<noteq> 0 then Q [Run c] (Inl (CalledProcessError rc c)) else Q [Run c] (Inr ())"
      by simp
    with Rc show ?thesis
      by (intro exI[of _ "[Run c]"])
         (simp add: run_strict_def run_and_stream_def thn_def bnd_def ret_def split: if_splits)
  qed
qed

lemma sat_run_lax [sat_intros]:
  assumes "\<And>h. case proc E h c of
          StartFails \<Rightarrow> Q [] (Inl OSError)
        | Rc rc \<Rightarrow> Q [Run c] (Inr ())"
  shows "sat (run_lax E c) Q"
  unfolding sat_def
proof
  fix w
  show "\<exists>evs. snd (run_lax E c w) = w\<lparr>trace := trace w @ evs\<rparr> \<and> Q evs (fst (run_lax E c w))"
  proof (cases "proc E (trace w) c")
    case StartFails
    with assms[of "trace w"] have "Q [] (Inl OSError)" by simp
    with StartFails show ?thesis
      by (intro exI[of _ "[]"]) (simp add: run_lax_def run_and_stream_def thn_def bnd_def ret_def)
  next
    case (Rc rc)
    with assms[of "trace w"] have "Q [Run c] (Inr ())" by simp
    with Rc show ?thesis
      by (intro exI[of _ "[Run c]"])
         (simp add: run_lax_def run_and_stream_def thn_def bnd_def ret_def)
  qed
qed

lemma sat_query_parted [sat_intros]:
  assumes "\<And>h. case parted_print E h disk of
          Inl e \<Rightarrow> Q [Query (parted_print_cmd disk)] (Inl e)
        | Inr ls \<Rightarrow> Q [Query (parted_print_cmd disk)] (Inr ls)"
  shows "sat (query_parted E disk) Q"
  unfolding sat_def
proof
  fix w
  show "\<exists>evs. snd (query_parted E disk w) = w\<lparr>trace := trace w @ evs\<rparr>
          \<and> Q evs (fst (query_parted E disk w))"
    using assms[of "trace w"]
    by (intro exI[of _ "[Query (parted_print_cmd disk)]"])
       (simp add: query_parted_def Let_def split: sum.splits)
qed

lemma sat_query_blkid [sat_intros]:
  assumes "\<And>h. case blkid E h dev of
          Inl e \<Rightarrow> Q [Query (blkid_cmd dev)] (Inl e)
        | Inr out \<Rightarrow> Q [Query (blkid_cmd dev)] (Inr (py_strip out))"
  shows "sat (query_blkid E dev) Q"
  unfolding sat_def
proof
  fix w
  show "\<exists>evs. snd (query_blkid E dev w) = w\<lparr>trace := trace w @ evs\<rparr>
          \<and> Q evs (fst (query_blkid E dev w))"
    using assms[of "trace w"]
    by (intro exI[of _ "[Query (blkid_cmd dev)]"])
       (simp add: query_blkid_def Let_def split: sum.splits)
qed

lemma sat_list_block_devices [sat_intros]:
  "(\<And>h. Q [Query lsblk_cmd] (Inr (inventory (lsblk E h)))) \<Longrightarrow> sat (list_block_devices E) Q"
  by (auto simp: sat_def list_block_devices_def)

lemma sat_lift [sat_intros]: "Q [] r \<Longrightarrow> sat (lift r) Q"
  by (cases r) (auto simp: lift_def intro: sat_intros)

lemma sat_whenp [sat_intros]:
  "(b \<Longrightarrow> sat m Q) \<Longrightarrow> (\<not> b \<Longrightarrow> Q [] (Inr ())) \<Longrightarrow> sat (whenp b m) Q"
  by (auto simp: whenp_def intro: sat_intros)

lemma sat_if [sat_intros]:
  "(b \<Longrightarrow> sat m Q) \<Longrightarrow> (\<not> b \<Longrightarrow> sat n Q) \<Longrightarrow> sat (if b then m else n) Q"
  by simp

lemma sat_weaken: "sat m Q \<Longrightarrow> (\<And>evs r. Q evs r \<Longrightarrow> Q' evs r) \<Longrightarrow> sat m Q'"
  unfolding sat_def by blast

lemma satD:
  "sat m Q \<Longrightarrow> \<exists>evs. m w = (fst (m w), w\<lparr>trace := trace w @ evs\<rparr>) \<and> Q evs (fst (m w))"
  unfolding sat_def by (metis prod.collapse)

lemma seq_Nil: "seq [] = ret ()"
  by (simp add: seq_def)

lemma seq_Cons: "seq (p # ps) = thn p (seq ps)"
  by (simp add: seq_def)

lemma invoked_append: "invoked (xs @ ys) = invoked xs @ invoked ys"
  by (induction xs rule: invoked.induct) simp_all

subsection \<open>Reencryption pipeline\<close>

lemma handlers_eq:
  "handlers (r, w) = (if r = Inr () then Completed else Failed, w\<lparr>trace := trace w @ handler_log r\<rparr>)"
  by (cases r) (auto simp: handlers_def handler_log_def split: exn.splits)

lemma invoked_handler_log: "invoked (handler_log r) = []"
  by (auto simp: handler_log_def split: sum.splits exn.splits)

text \<open>What the pipeline, wrapped in its handlers and the final clean-up, adds to the trace.\<close>

lemma guarded_events:
  assumes "mktemp E (trace w) = TmpOk k" and "sat (steps k) Q"
  shows "\<exists>evs r. Q evs r \<and> new_events w (snd (guarded E steps w)) = evs @ handler_log r"
proof -
  let ?w1 = "w\<lparr>files := insert k (files w)\<rparr>"
  from satD[OF assms(2), of ?w1] obtain evs where
    st: "steps k ?w1 = (fst (steps k ?w1), ?w1\<lparr>trace := trace ?w1 @ evs\<rparr>)"
    and q: "Q evs (fst (steps k ?w1))" by blast
  have "guarded E steps w
        = (case handlers (steps k ?w1) of (st, w2) \<Rightarrow> (st, key_cleanup (Some k) w2))"
    using assms(1) by (simp add: guarded_def make_keyfile_def)
  also have "handlers (steps k ?w1) = handlers (fst (steps k ?w1), ?w1\<lparr>trace := trace ?w1 @ evs\<rparr>)"
    using st by simp
  finally have "trace (snd (guarded E steps w)) = trace w @ evs @ handler_log (fst (steps k ?w1))"
    by (simp add: handlers_eq key_cleanup_def)
  then have "new_events w (snd (guarded E steps w)) = evs @ handler_log (fst (steps k ?w1))"
    by (simp add: new_events_def)
  with q show ?thesis by blast
qed

lemma sat_pipeline_prefix:
  "sat (pipeline E device reduce_size True True False k)
     (\<lambda>evs r. prefix (invoked evs)
        [fsck_cmd device, minimize_cmd device, reencrypt_cmd reduce_size k device])"
  unfolding pipeline_def seq_Cons seq_Nil
  by (intro sat_intros impI conjI allI | simp split: proc_result.splits)+

lemma sat_pipeline_boot_prefix:
  "sat (pipeline_boot E device reduce_size True True False False k)
     (\<lambda>evs r. prefix (invoked evs)
        [fsck_cmd device, minimize_cmd device, reencrypt_cmd reduce_size k device])"
  unfolding pipeline_boot_def seq_Cons seq_Nil
  by (intro sat_intros impI conjI allI | simp split: proc_result.splits)+

lemma sat_pipeline_exact:
  assumes "\<forall>h. proc E h (fsck_cmd device) = Rc 0" "\<forall>h. proc E h (minimize_cmd device) = Rc 0"
    "\<forall>h. proc E h (reencrypt_cmd reduce_size k device) \<noteq> StartFails"
  shows "sat (pipeline E device reduce_size True True False k)
     (\<lambda>evs r. invoked evs = [fsck_cmd device, minimize_cmd device, reencrypt_cmd reduce_size k device])"
  unfolding pipeline_def seq_Cons seq_Nil
  using assms
  by (intro sat_intros impI conjI allI | simp split: proc_result.splits)+

lemma sat_pipeline_boot_exact:
  assumes "\<forall>h. proc E h (fsck_cmd device) = Rc 0" "\<forall>h. proc E h (minimize_cmd device) = Rc 0"
    "\<forall>h. proc E h (reencrypt_cmd reduce_size k device) \<noteq> StartFails"
  shows "sat (pipeline_boot E device reduce_size True True False False k)
     (\<lambda>evs r. invoked evs = [fsck_cmd device, minimize_cmd device, reencrypt_cmd reduce_size k device])"
  unfolding pipeline_boot_def seq_Cons seq_Nil
  using assms
  by (intro sat_intros impI conjI allI | simp split: proc_result.splits)+

text \<open>
  C1, as the claim has it, fails: when \<^verbatim>\<open>e2fsck\<close> exits with a non-zero status the run ends
  there, and the only command invoked is the integrity check.
\<close>

theorem fsck_failure_stops_pipeline:
  "invoked (new_events w0 (snd (worker env_fsck_fails ''/dev/sda1'' ''32M'' True True False w0)))
     = [[''e2fsck'', ''-f'', ''-y'', ''/dev/sda1'']]"
  by (simp add: worker_def guarded_def make_keyfile_def pipeline_def seq_Cons seq_Nil
        new_events_def handlers_def key_cleanup_def prog_defs truthy_def
        env_fsck_fails_def env_const_def w0_def fsck_cmd_def)

text \<open>
  C1, amended. In a run with fsck and minimize enabled, boot-partition creation and system
  integration disabled, and the key file written: the commands invoked are a prefix of
  integrity check, minimal resize, in-place encryption with the configured reduce size (so
  no mount and no chroot command is among them), and they are exactly these three, in this
  order, when the integrity check and the resize exit with status 0 and the encryption
  tool can be started. This holds for the pipeline of pyrus.py and Tpyrus.py and for that
  of boot.py.
\<close>

theorem pipeline_commands:
  assumes "mktemp E (trace w) = TmpOk k"
  shows "prefix (invoked (new_events w (snd (worker E device reduce_size True True False w))))
           [fsck_cmd device, minimize_cmd device, reencrypt_cmd reduce_size k device]
       \<and> prefix (invoked (new_events w (snd (worker_boot E device reduce_size True True False False w))))
           [fsck_cmd device, minimize_cmd device, reencrypt_cmd reduce_size k device]
       \<and> ((\<forall>h. proc E h (fsck_cmd device) = Rc 0) \<and> (\<forall>h. proc E h (minimize_cmd device) = Rc 0)
            \<and> (\<forall>h. proc E h (reencrypt_cmd reduce_size k device) \<noteq> StartFails) \<longrightarrow>
            invoked (new_events w (snd (worker E device reduce_size True True False w)))
              = [fsck_cmd device, minimize_cmd device, reencrypt_cmd reduce_size k device]
          \<and> invoked (new_events w (snd (worker_boot E device reduce_size True True False False w)))
              = [fsck_cmd device, minimize_cmd device, reencrypt_cmd reduce_size k device])"
proof -
  let ?cs = "[fsck_cmd device, minimize_cmd device, reencrypt_cmd reduce_size k device]"
  have a: "prefix (invoked (new_events w (snd (worker E device reduce_size True True False w)))) ?cs"
    using guarded_events[where steps="pipeline E device reduce_size True True False", OF assms sat_pipeline_prefix]
    by (auto simp: worker_def invoked_append invoked_handler_log)
  have b: "prefix (invoked (new_events w (snd (worker_boot E device reduce_size True True False False w)))) ?cs"
    using guarded_events[where steps="pipeline_boot E device reduce_size True True False False", OF assms sat_pipeline_boot_prefix]
    by (auto simp: worker_boot_def invoked_append invoked_handler_log)
  have c: "invoked (new_events w (snd (worker E device reduce_size True True False w))) = ?cs"
    if "\<forall>h. proc E h (fsck_cmd device) = Rc 0" "\<forall>h. proc E h (minimize_cmd device) = Rc 0"
       "\<forall>h. proc E h (reencrypt_cmd reduce_size k device) \<noteq> StartFails"
    using guarded_events[where steps="pipeline E device reduce_size True True False", OF assms sat_pipeline_exact[OF that]]
    by (auto simp: worker_def invoked_append invoked_handler_log)
  have d: "invoked (new_events w (snd (worker_boot E device reduce_size True True False False w))) = ?cs"
    if "\<forall>h. proc E h (fsck_cmd device) = Rc 0" "\<forall>h. proc E h (minimize_cmd device) = Rc 0"
       "\<forall>h. proc E h (reencrypt_cmd reduce_size k device) \<noteq> StartFails"
    using guarded_events[where steps="pipeline_boot E device reduce_size True True False False", OF assms sat_pipeline_boot_exact[OF that]]
    by (auto simp: worker_boot_def invoked_append invoked_handler_log)
  from a b c d show ?thesis by blast
qed

theorem pipeline_commands_witness:
  "mktemp env_sda (trace w0) = TmpOk ''/tmp/tmpk3y''
   \<and> invoked (new_events w0 (snd (worker env_sda ''/dev/sda1'' ''32M'' True True False w0)))
       = [[''e2fsck'', ''-f'', ''-y'', ''/dev/sda1''],
          [''resize2fs'', ''-M'', ''/dev/sda1''],
          [''cryptsetup'', ''reencrypt'', ''--batch-mode'', ''--encrypt'', ''--type'', ''luks2'',
           ''--hash'', ''sha256'', ''--pbkdf'', ''pbkdf2'', ''--reduce-device-size'', ''32M'',
           ''--key-file'', ''/tmp/tmpk3y'', ''/dev/sda1'']]
   \<and> invoked (new_events w0 (snd (worker_boot env_sda ''/dev/sda1'' ''32M'' True True False False w0)))
       = [[''e2fsck'', ''-f'', ''-y'', ''/dev/sda1''],
          [''resize2fs'', ''-M'', ''/dev/sda1''],
          [''cryptsetup'', ''reencrypt'', ''--batch-mode'', ''--encrypt'', ''--type'', ''luks2'',
           ''--hash'', ''sha256'', ''--pbkdf'', ''pbkdf2'', ''--reduce-device-size'', ''32M'',
           ''--key-file'', ''/tmp/tmpk3y'', ''/dev/sda1'']]"
proof -
  have k: "mktemp env_sda (trace w0) = TmpOk ''/tmp/tmpk3y''"
    by (simp add: env_sda_def env_const_def)
  have p: "\<forall>h. proc env_sda h (fsck_cmd ''/dev/sda1'') = Rc 0"
          "\<forall>h. proc env_sda h (minimize_cmd ''/dev/sda1'') = Rc 0"
          "\<forall>h. proc env_sda h (reencrypt_cmd ''32M'' ''/tmp/tmpk3y'' ''/dev/sda1'') \<noteq> StartFails"
    by (simp_all add: env_sda_def env_const_def)
  from pipeline_commands[OF k, of "''/dev/sda1''" "''32M''"] p k
  show ?thesis
    by (simp add: fsck_cmd_def minimize_cmd_def reencrypt_cmd_def)
qed

text \<open>
  Once the key file block has run to its end (the file exists and \<^verbatim>\<open>keyfile\<close> holds its
  name), the file does not exist when the pipeline returns, whatever the steps did: full
  success, a failed strict command, or any other exception.
\<close>

lemma key_file_removed:
  "mktemp E (trace w) = TmpOk n \<Longrightarrow> n \<noteq> [] \<Longrightarrow>
   n \<notin> files (snd (worker E device reduce_size run_fsck run_minimize run_chroot w))
   \<and> n \<notin> files (snd (worker_boot E device reduce_size run_fsck run_minimize run_boot run_chroot w))"
  by (simp add: worker_def worker_boot_def guarded_def make_keyfile_def key_cleanup_def truthy_def
       split: prod.splits)

text \<open>
  The block that writes the key file is not covered by this: the name is stored in
  \<^verbatim>\<open>keyfile\<close> only after \<^verbatim>\<open>write\<close>, \<^verbatim>\<open>flush\<close> and \<^verbatim>\<open>close\<close>, so when one of them raises
  the \<^verbatim>\<open>finally\<close> clause finds \<^verbatim>\<open>keyfile\<close> still \<^verbatim>\<open>None\<close>, and the file that
  \<^verbatim>\<open>NamedTemporaryFile\<close> created stays, whatever the options of the run.
\<close>

lemma key_file_left_when_write_fails:
  "mktemp E (trace w) = TmpWriteFails n \<Longrightarrow>
   n \<in> files (snd (worker E device reduce_size run_fsck run_minimize run_chroot w))
   \<and> n \<in> files (snd (worker_boot E device reduce_size run_fsck run_minimize run_boot run_chroot w))"
  by (simp add: worker_def worker_boot_def guarded_def make_keyfile_def key_cleanup_def truthy_def
        handlers_eq)

text \<open>
  C2: in a run in which the key file was created, the file does not exist after the
  pipeline has returned, on every exit path. The code breaks this in the run below: the
  temporary file \<^verbatim>\<open>/tmp/tmpk3y\<close> is created and writing the passphrase raises \<^verbatim>\<open>OSError\<close>.
  The pipeline logs the unexpected error, ends as failed without having invoked a command,
  and the key file is still there; this is so in pyrus.py and Tpyrus.py and in boot.py.
\<close>

theorem key_file_left_after_failed_write:
  "mktemp env_write_fails (trace w0) = TmpWriteFails ''/tmp/tmpk3y''
   \<and> worker env_write_fails ''/dev/sda1'' ''32M'' True True False w0
       = (Failed, \<lparr>trace = [Log (ErrUnexpected OSError)], files = {''/tmp/tmpk3y''}\<rparr>)
   \<and> worker_boot env_write_fails ''/dev/sda1'' ''32M'' True True False False w0
       = (Failed, \<lparr>trace = [Log (ErrUnexpected OSError)], files = {''/tmp/tmpk3y''}\<rparr>)"
  by (simp add: worker_def worker_boot_def guarded_def make_keyfile_def key_cleanup_def truthy_def
        handlers_def env_write_fails_def env_const_def w0_def)

subsection \<open>Shrink planner: last partition, resize, remount\<close>

lemma digits_val_snoc: "digits_val (s @ [c]) = 10 * digits_val s + (of_char c - 48)"
  by (simp add: digits_val_def)

lemma digits_val_single: "digits_val [c] = of_char c - 48"
  by (simp add: digits_val_def)

lemma digits_val_str_nat: "0 \<le> n \<Longrightarrow> digits_val (str_nat n) = n"
proof (induction n rule: str_nat.induct)
  case (1 n)
  show ?case
  proof (cases "n < 10")
    case True
    with 1 have "of_char (char_of (48 + n) :: char) = 48 + n"
      by (simp add: of_char_of take_bit_eq_mod)
    with True show ?thesis
      by (subst str_nat.simps) (simp add: digits_val_single)
  next
    case False
    with 1 have ih: "digits_val (str_nat (n div 10)) = n div 10" by simp
    have "0 \<le> n mod 10" "n mod 10 < 10" by simp_all
    then have "of_char (char_of (48 + n mod 10) :: char) = 48 + n mod 10"
      by (simp add: of_char_of take_bit_eq_mod)
    with False ih show ?thesis
      by (subst str_nat.simps) (simp add: digits_val_snoc)
  qed
qed

lemma str_nat_nonempty: "str_nat n \<noteq> []"
  by (subst str_nat.simps) simp

lemma all_digits_partition_number: "list_all is_digit (get_partition_number dev)"
  by (simp add: get_partition_number_def trailing_digits_def list_all_iff)
     (metis set_takeWhileD)

lemma str_opt_int_digits:
  assumes "pn = str_opt_int lp" "pn \<noteq> []" "list_all is_digit pn"
  shows "lp = Some (digits_val pn)"
proof (cases lp)
  case None
  with assms show ?thesis by (simp add: str_opt_int_def is_digit_def)
next
  case (Some i)
  show ?thesis
  proof (cases "i < 0")
    case True
    with assms Some show ?thesis by (simp add: str_opt_int_def str_int_def is_digit_def)
  next
    case False
    with assms Some have "pn = str_nat i" by (simp add: str_opt_int_def str_int_def)
    with False Some show ?thesis by (simp add: digits_val_str_nat)
  qed
qed

lemma not_last_differs:
  assumes "\<not> is_last_partition disk dev ls" "get_partition_number dev \<noteq> []"
  shows "get_partition_number dev \<noteq> str_opt_int (snd (table_info disk ls))"
  using assms str_opt_int_digits[OF _ _ all_digits_partition_number, of dev "snd (table_info disk ls)"]
  by (auto simp: is_last_partition_def)

lemma sat_table_info [sat_intros]:
  assumes "\<And>h. case parted_print E h disk of
          Inl e \<Rightarrow> Q [Query (parted_print_cmd disk)] (Inl e)
        | Inr ls \<Rightarrow> Q [Query (parted_print_cmd disk)] (Inr (table_info disk ls))"
  shows "sat (get_table_type_and_last_part E disk) Q"
  unfolding get_table_type_and_last_part_def
proof (rule sat_bnd, rule sat_query_parted)
  fix h
  show "case parted_print E h disk of
          Inl e \<Rightarrow> (case Inl e of Inl e \<Rightarrow> Q [Query (parted_print_cmd disk)] (Inl e)
                    | Inr ls \<Rightarrow> sat (ret (table_info disk ls))
                        (\<lambda>evs' r'. Q ([Query (parted_print_cmd disk)] @ evs') r'))
        | Inr ls \<Rightarrow> (case Inr ls of Inl e \<Rightarrow> Q [Query (parted_print_cmd disk)] (Inl e)
                    | Inr ls \<Rightarrow> sat (ret (table_info disk ls))
                        (\<lambda>evs' r'. Q ([Query (parted_print_cmd disk)] @ evs') r'))"
    using assms[of h] by (auto split: sum.splits intro!: sat_ret)
qed

lemma sat_partition_end [sat_intros]:
  assumes "\<And>h. case parted_print E h disk of
          Inl e \<Rightarrow> Q [Query (parted_print_cmd disk)] (Inl e)
        | Inr ls \<Rightarrow> Q [Query (parted_print_cmd disk)] (partition_end disk pn ls)"
  shows "sat (get_partition_end_mib E disk pn) Q"
  unfolding get_partition_end_mib_def
proof (rule sat_bnd, rule sat_query_parted)
  fix h
  show "case parted_print E h disk of
          Inl e \<Rightarrow> (case Inl e of Inl e \<Rightarrow> Q [Query (parted_print_cmd disk)] (Inl e)
                    | Inr ls \<Rightarrow> sat (lift (partition_end disk pn ls))
                        (\<lambda>evs' r'. Q ([Query (parted_print_cmd disk)] @ evs') r'))
        | Inr ls \<Rightarrow> (case Inr ls of Inl e \<Rightarrow> Q [Query (parted_print_cmd disk)] (Inl e)
                    | Inr ls \<Rightarrow> sat (lift (partition_end disk pn ls))
                        (\<lambda>evs' r'. Q ([Query (parted_print_cmd disk)] @ evs') r'))"
    using assms[of h] by (auto split: sum.splits intro!: sat_lift)
qed

lemma sat_shrink_steps_not_last:
  assumes "\<forall>h ls. parted_print E h disk = Inr ls \<longrightarrow> \<not> is_last_partition disk dev ls"
  shows "sat (shrink_steps E disk dev rm)
           (\<lambda>evs r. r \<noteq> Inr True \<and> (\<forall>ev\<in>set evs. \<not> is_parted_run ev))"
  unfolding shrink_steps_def Let_def
  using assms
  apply (intro sat_intros impI conjI allI | simp add: split_beta not_last_differs split: proc_result.splits sum.splits)+
  done

lemma sat_shrink_not_last:
  assumes "\<forall>h ls. parted_print E h disk = Inr ls \<longrightarrow> \<not> is_last_partition disk dev ls"
  shows "sat (shrink_partition_free_space E disk dev mp)
           (\<lambda>evs r. r = Inr False \<and> (\<forall>ev\<in>set evs. \<not> is_parted_run ev))"
  unfolding shrink_partition_free_space_def shrink_body_def
  by (intro sat_intros sat_weaken[OF sat_shrink_steps_not_last[OF assms]] impI conjI allI
      | simp split: proc_result.splits sum.splits)+

text \<open>
  C4. When no answer of the geometry query shows the candidate as the last partition of the
  disk, the shrink planner returns \<^verbatim>\<open>False\<close> and none of the events it adds to the trace is
  a call of the table editor.
\<close>

theorem shrink_refuses_not_last:
  assumes "\<forall>h ls. parted_print E h base_disk = Inr ls \<longrightarrow> \<not> is_last_partition base_disk dev_path ls"
  shows "\<exists>evs. shrink_partition_free_space E base_disk dev_path current_mountpoint w
                 = (Inr False, w\<lparr>trace := trace w @ evs\<rparr>)
               \<and> (\<forall>ev\<in>set evs. \<not> is_parted_run ev)"
  using satD[OF sat_shrink_not_last[OF assms], of current_mountpoint w] by auto

text \<open>Scenario 3: partitions 1 and 2, shrink of partition 1.\<close>

lemma shrink_scenario3:
  "shrink_partition_free_space env_sda ''/dev/sda'' ''/dev/sda1'' None \<lparr>trace = [], files = {}\<rparr>
     = (Inr False,
        \<lparr>trace = [Log MsgTryShrink,
                  Run [''e2fsck'', ''-f'', ''-y'', ''/dev/sda1''],
                  Run [''resize2fs'', ''-M'', ''/dev/sda1''],
                  Query [''parted'', ''-m'', ''/dev/sda'', ''unit'', ''MiB'', ''print'', ''free''],
                  Log (ErrNotLastPartition ''1'' ''2'')],
         files = {}\<rparr>)"
proof -
  have t: "table_info ''/dev/sda'' listing_two = (''gpt'', Some 2)" by code_simp
  have p: "get_partition_number ''/dev/sda1'' = ''1''" by code_simp
  have s: "str_opt_int (Some 2) = ''2''" by code_simp
  show ?thesis
    by (simp add: shrink_partition_free_space_def shrink_body_def shrink_steps_def
          get_table_type_and_last_part_def query_parted_def parted_print_cmd_def
          prog_defs truthy_def env_sda_def env_const_def t p s)
qed

theorem shrink_refuses_not_last_witness:
  "\<not> is_last_partition ''/dev/sda'' ''/dev/sda1'' listing_two
   \<and> (\<exists>evs. shrink_partition_free_space env_sda ''/dev/sda'' ''/dev/sda1'' None w0
                 = (Inr False, w0\<lparr>trace := trace w0 @ evs\<rparr>)
            \<and> (\<forall>ev\<in>set evs. \<not> is_parted_run ev)
            \<and> last evs = Log (ErrNotLastPartition ''1'' ''2''))"
proof -
  have n: "\<not> is_last_partition ''/dev/sda'' ''/dev/sda1'' listing_two" by code_simp
  then have h: "\<forall>h ls. parted_print env_sda h ''/dev/sda'' = Inr ls
                  \<longrightarrow> \<not> is_last_partition ''/dev/sda'' ''/dev/sda1'' ls"
    by (simp add: env_sda_def env_const_def)
  from shrink_refuses_not_last[OF h, of None w0] n show ?thesis
    by (auto simp: shrink_scenario3 w0_def)
qed







lemma only_resizes_Nil [simp]: "only_resizes E disk pn []"
  by (simp add: only_resizes_def)

lemma only_resizes_Cons [simp]:
  "only_resizes E disk pn (ev # evs) =
     ((\<not> is_parted_run ev \<or> resize_event E disk pn ev) \<and> only_resizes E disk pn evs)"
  by (simp add: only_resizes_def)

lemma only_resizes_append [simp]:
  "only_resizes E disk pn (xs @ ys) = (only_resizes E disk pn xs \<and> only_resizes E disk pn ys)"
  by (simp add: only_resizes_def)








text \<open>
  When the subtraction of 1050 is exact, the new end is \<open>max 1 (currentEnd - 1050)\<close> as the
  claim has it; it is exact for the ends of the listings above.
\<close>

lemma new_end_exact:
  "rd (a - 1050) = Fin (a - 1050) \<Longrightarrow> py_max (Fin 1) (fsub (Fin a) 1050) = Fin (max 1 (a - 1050))"
  by (simp add: py_max_def fsub_def max_def)

text \<open>
  The listing that \<^verbatim>\<open>parted -m ... print free\<close> prints numbers the lines of free space 1.
  For partition 1 the parser then reads the first such line and not the line of the
  partition: in the listing below the partition ends at 20479MiB, the parser returns the
  end 1.00MiB of the free space before it, and the shrink of \<^verbatim>\<open>/dev/sda1\<close> resizes the entry
  to 1MiB.
\<close>

lemma free_space_row_is_read:
  "rows_numbered ''/dev/sda'' ''1'' listing_free
     = [''1:0.02MiB:1.00MiB:0.98MiB:free;'',
        ''1:1.00MiB:20479MiB:20478MiB:ext4::;'',
        ''1:20479MiB:20480MiB:1.00MiB:free;'']
   \<and> reported_end ''1:1.00MiB:20479MiB:20478MiB:ext4::;'' = Some (Fin 20479)
   \<and> partition_end ''/dev/sda'' ''1'' listing_free = Inr (Fin 1)
   \<and> shrink_partition_free_space env_free ''/dev/sda'' ''/dev/sda1'' None \<lparr>trace = [], files = {}\<rparr>
     = (Inr True,
        \<lparr>trace = [Log MsgTryShrink,
                  Run [''e2fsck'', ''-f'', ''-y'', ''/dev/sda1''],
                  Run [''resize2fs'', ''-M'', ''/dev/sda1''],
                  Query [''parted'', ''-m'', ''/dev/sda'', ''unit'', ''MiB'', ''print'', ''free''],
                  Query [''parted'', ''-m'', ''/dev/sda'', ''unit'', ''MiB'', ''print'', ''free''],
                  Run [''parted'', ''/dev/sda'', ''--script'', ''unit'', ''MiB'', ''resizepart'',
                       ''1'', ''1MiB''],
                  Run [''partprobe'', ''/dev/sda''],
                  Run [''udevadm'', ''settle'']],
         files = {}\<rparr>)"
proof -
  have r: "rows_numbered ''/dev/sda'' ''1'' listing_free
     = [''1:0.02MiB:1.00MiB:0.98MiB:free;'',
        ''1:1.00MiB:20479MiB:20478MiB:ext4::;'',
        ''1:20479MiB:20480MiB:1.00MiB:free;'']" by code_simp
  have q: "reported_end ''1:1.00MiB:20479MiB:20478MiB:ext4::;'' = Some (Fin 20479)" by code_simp
  have t: "table_info ''/dev/sda'' listing_free = (''gpt'', Some 1)" by code_simp
  have p: "get_partition_number ''/dev/sda1'' = ''1''" by code_simp
  have s: "str_opt_int (Some 1) = ''1''" by code_simp
  have e: "partition_end ''/dev/sda'' ''1'' listing_free = Inr (Fin 1)" by code_simp
  have f: "float_to_int (new_end_of (Fin 1)) = Inr 1" by code_simp
  have c: "resizepart_cmd ''/dev/sda'' ''1'' 1
             = [''parted'', ''/dev/sda'', ''--script'', ''unit'', ''MiB'', ''resizepart'',
                ''1'', ''1MiB'']" by code_simp
  have "shrink_partition_free_space env_free ''/dev/sda'' ''/dev/sda1'' None \<lparr>trace = [], files = {}\<rparr>
     = (Inr True,
        \<lparr>trace = [Log MsgTryShrink,
                  Run [''e2fsck'', ''-f'', ''-y'', ''/dev/sda1''],
                  Run [''resize2fs'', ''-M'', ''/dev/sda1''],
                  Query [''parted'', ''-m'', ''/dev/sda'', ''unit'', ''MiB'', ''print'', ''free''],
                  Query [''parted'', ''-m'', ''/dev/sda'', ''unit'', ''MiB'', ''print'', ''free''],
                  Run [''parted'', ''/dev/sda'', ''--script'', ''unit'', ''MiB'', ''resizepart'',
                       ''1'', ''1MiB''],
                  Run [''partprobe'', ''/dev/sda''],
                  Run [''udevadm'', ''settle'']],
         files = {}\<rparr>)"
    by (simp add: shrink_partition_free_space_def shrink_body_def shrink_steps_def
          get_table_type_and_last_part_def get_partition_end_mib_def query_parted_def
          parted_print_cmd_def prog_defs truthy_def env_free_def env_const_def t p s e f c)
  with r q e show ?thesis by blast
qed

lemma sat_shrink_steps_remount:
  "sat (shrink_steps E disk dev (Some mp))
     (\<lambda>evs r. case r of
                 Inl e \<Rightarrow> list_all (\<lambda>ev. \<not> is_mount_run ev) evs
               | Inr b \<Rightarrow> if b then Run [''mount'', dev, mp] \<in> set evs
                          else list_all (\<lambda>ev. \<not> is_mount_run ev) evs)"
  unfolding shrink_steps_def Let_def
  by (intro sat_intros impI conjI allI
      | simp add: split_beta resizepart_cmd_def split: proc_result.splits sum.splits)+

lemma sat_shrink_remount:
  assumes "mp \<noteq> ''/''" "mp \<noteq> []"
  shows "sat (shrink_partition_free_space E disk dev (Some mp))
     (\<lambda>evs r. case r of
                 Inl e \<Rightarrow> False
               | Inr b \<Rightarrow> if b then Run [''umount'', dev] \<in> set evs
                               \<and> Run [''mount'', dev, mp] \<in> set evs
                          else list_all (\<lambda>ev. \<not> is_mount_run ev) evs)"
  unfolding shrink_partition_free_space_def shrink_body_def
  using assms
  by (intro sat_intros sat_weaken[OF sat_shrink_steps_remount] impI conjI allI
      | simp add: truthy_def split: proc_result.splits sum.splits)+

text \<open>
  C10. Called with a mountpoint other than \<^verbatim>\<open>/\<close>, the shrink planner never raises; when it
  returns \<^verbatim>\<open>False\<close> it has run no \<^verbatim>\<open>mount\<close> command, so a candidate it unmounted stays
  unmounted; when it returns \<^verbatim>\<open>True\<close> it has run the unmount and the remount at the
  remembered mountpoint.
\<close>

theorem shrink_remounts_only_on_success:
  assumes "mp \<noteq> ''/''" "mp \<noteq> []"
  shows "\<exists>evs b. shrink_partition_free_space E base_disk dev_path (Some mp) w
                   = (Inr b, w\<lparr>trace := trace w @ evs\<rparr>)
               \<and> (if b then Run [''umount'', dev_path] \<in> set evs
                          \<and> Run [''mount'', dev_path, mp] \<in> set evs
                   else list_all (\<lambda>ev. \<not> is_mount_run ev) evs)"
proof -
  let ?r = "fst (shrink_partition_free_space E base_disk dev_path (Some mp) w)"
  from satD[OF sat_shrink_remount[OF assms], of E base_disk dev_path w]
  obtain evs where
    eq: "shrink_partition_free_space E base_disk dev_path (Some mp) w
           = (?r, w\<lparr>trace := trace w @ evs\<rparr>)"
    and q: "case ?r of
              Inl e \<Rightarrow> False
            | Inr b \<Rightarrow> if b then Run [''umount'', dev_path] \<in> set evs
                               \<and> Run [''mount'', dev_path, mp] \<in> set evs
                       else list_all (\<lambda>ev. \<not> is_mount_run ev) evs"
    by blast
  from q obtain b where b: "?r = Inr b" by (cases ?r) auto
  with q eq show ?thesis by (intro exI[of _ evs] exI[of _ b]) simp
qed

lemma shrink_unmounted_run:
  "shrink_partition_free_space env_sda ''/dev/sda'' ''/dev/sda1'' (Some ''/mnt/data'')
       \<lparr>trace = [], files = {}\<rparr>
     = (Inr False,
        \<lparr>trace = [Log MsgTryShrink,
                  Log (MsgUnmounting ''/dev/sda1'' ''/mnt/data''),
                  Run [''umount'', ''/dev/sda1''],
                  Run [''e2fsck'', ''-f'', ''-y'', ''/dev/sda1''],
                  Run [''resize2fs'', ''-M'', ''/dev/sda1''],
                  Query [''parted'', ''-m'', ''/dev/sda'', ''unit'', ''MiB'', ''print'', ''free''],
                  Log (ErrNotLastPartition ''1'' ''2'')],
         files = {}\<rparr>)"
proof -
  have t: "table_info ''/dev/sda'' listing_two = (''gpt'', Some 2)" by code_simp
  have p: "get_partition_number ''/dev/sda1'' = ''1''" by code_simp
  have s: "str_opt_int (Some 2) = ''2''" by code_simp
  show ?thesis
    by (simp add: shrink_partition_free_space_def shrink_body_def shrink_steps_def
          get_table_type_and_last_part_def query_parted_def parted_print_cmd_def
          prog_defs truthy_def env_sda_def env_const_def t p s)
qed

theorem shrink_remounts_only_on_success_witness:
  "''/mnt/data'' \<noteq> ''/'' \<and> ''/mnt/data'' \<noteq> ''''
   \<and> shrink_partition_free_space env_sda ''/dev/sda'' ''/dev/sda1'' (Some ''/mnt/data'') w0
     = (Inr False, w0\<lparr>trace := trace w0 @
         [Log MsgTryShrink,
          Log (MsgUnmounting ''/dev/sda1'' ''/mnt/data''),
          Run [''umount'', ''/dev/sda1''],
          Run [''e2fsck'', ''-f'', ''-y'', ''/dev/sda1''],
          Run [''resize2fs'', ''-M'', ''/dev/sda1''],
          Query [''parted'', ''-m'', ''/dev/sda'', ''unit'', ''MiB'', ''print'', ''free''],
          Log (ErrNotLastPartition ''1'' ''2'')]\<rparr>)
   \<and> list_all (\<lambda>ev. \<not> is_mount_run ev)
         [Log MsgTryShrink,
          Log (MsgUnmounting ''/dev/sda1'' ''/mnt/data''),
          Run [''umount'', ''/dev/sda1''],
          Run [''e2fsck'', ''-f'', ''-y'', ''/dev/sda1''],
          Run [''resize2fs'', ''-M'', ''/dev/sda1''],
          Query [''parted'', ''-m'', ''/dev/sda'', ''unit'', ''MiB'', ''print'', ''free''],
          Log (ErrNotLastPartition ''1'' ''2'')]"
proof -
  have h: "''/mnt/data'' \<noteq> ''/''" "''/mnt/data'' \<noteq> ''''" by simp_all
  from shrink_remounts_only_on_success[OF h, of env_sda "''/dev/sda''" "''/dev/sda1''" w0]
  obtain evs b where
    eq: "shrink_partition_free_space env_sda ''/dev/sda'' ''/dev/sda1'' (Some ''/mnt/data'') w0
           = (Inr b, w0\<lparr>trace := trace w0 @ evs\<rparr>)"
    and q: "if b then Run [''umount'', ''/dev/sda1''] \<in> set evs
                     \<and> Run [''mount'', ''/dev/sda1'', ''/mnt/data''] \<in> set evs
            else list_all (\<lambda>ev. \<not> is_mount_run ev) evs"
    by blast
  from eq have b: "\<not> b" and e: "evs = [Log MsgTryShrink,
          Log (MsgUnmounting ''/dev/sda1'' ''/mnt/data''),
          Run [''umount'', ''/dev/sda1''],
          Run [''e2fsck'', ''-f'', ''-y'', ''/dev/sda1''],
          Run [''resize2fs'', ''-M'', ''/dev/sda1''],
          Query [''parted'', ''-m'', ''/dev/sda'', ''unit'', ''MiB'', ''print'', ''free''],
          Log (ErrNotLastPartition ''1'' ''2'')]"
    by (simp_all add: w0_def shrink_unmounted_run)
  from q b e eq show ?thesis by simp
qed

subsection \<open>Boot partition creator\<close>





lemma sat_setup_boot_reached:
  "sat (setup_boot E nb) (\<lambda>evs r. evs \<noteq> [] \<and> hd evs = Log (MsgNewPartition nb))"
  unfolding setup_boot_def
  by (intro sat_intros impI conjI allI
      | simp split: proc_result.splits sum.splits option.splits)+












subsection \<open>Base disk\<close>

lemma rstrip_digits_append:
  "list_all is_digit ds \<Longrightarrow> r = [] \<or> \<not> is_digit (last r) \<Longrightarrow> rstrip_digits (r @ ds) = r"
  by (cases r rule: rev_cases) (auto simp: rstrip_digits_def list_all_iff dropWhile_append3 dropWhile_append)

lemma trailing_digits_append:
  assumes "list_all is_digit ds" "r = [] \<or> \<not> is_digit (last r)"
  shows "trailing_digits (r @ ds) = ds"
proof (cases r rule: rev_cases)
  case Nil
  from assms(1) have "\<forall>x\<in>set (rev ds). is_digit x" by (simp add: list_all_iff)
  then have "takeWhile is_digit (rev ds) = rev ds" by (rule takeWhile_eq_all_conv[THEN iffD2])
  then have "rev (takeWhile is_digit (rev ds)) = ds" by (simp only: rev_rev_ident)
  with Nil show ?thesis by (simp only: trailing_digits_def append_Nil)
next
  case (snoc ys y)
  from assms(1) have d: "\<And>x. x \<in> set (rev ds) \<Longrightarrow> is_digit x" by (simp add: list_all_iff)
  from snoc assms(2) have y: "\<not> is_digit y" by simp
  have "takeWhile is_digit (rev ds @ y # rev ys) = rev ds @ takeWhile is_digit (y # rev ys)"
    by (rule takeWhile_append2) (rule d)
  with y snoc show ?thesis by (simp add: trailing_digits_def)
qed

lemma re_body_digits:
  "list_all is_digit ds \<Longrightarrow> ds \<noteq> [] \<Longrightarrow> re_body (r @ ds) = r @ ds \<and> re_tail (r @ ds) = []"
  by (cases ds rule: rev_cases) (auto simp: re_body_def re_tail_def is_digit_def)

text \<open>
  What boot.py:95 does: an NVMe or MMC path loses its suffix \<^verbatim>\<open>pN\<close>, any other path its
  trailing digits.
\<close>

lemma base_disk_nvme_style:
  assumes "startswith (r @ ''p'' @ ds) ''/dev/nvme'' \<or> startswith (r @ ''p'' @ ds) ''/dev/mmcblk''"
    and "list_all is_digit ds" "ds \<noteq> []"
  shows "get_base_disk_from_device (r @ ''p'' @ ds) = r"
proof -
  have b: "re_body ((r @ ''p'') @ ds) = (r @ ''p'') @ ds" "re_tail ((r @ ''p'') @ ds) = []"
    using re_body_digits[OF assms(2,3), of "r @ ''p''"] by simp_all
  have "\<not> is_digit (last (r @ ''p''))" by (simp add: is_digit_def)
  then have "rstrip_digits ((r @ ''p'') @ ds) = r @ ''p''" "trailing_digits ((r @ ''p'') @ ds) = ds"
    using rstrip_digits_append[OF assms(2), of "r @ ''p''"]
          trailing_digits_append[OF assms(2), of "r @ ''p''"] by simp_all
  with b assms show ?thesis
    by (simp add: get_base_disk_from_device_def sub_p_digits_def)
qed

lemma base_disk_simple:
  assumes "\<not> startswith (r @ ds) ''/dev/nvme''" "\<not> startswith (r @ ds) ''/dev/mmcblk''"
    and "list_all is_digit ds" "ds \<noteq> []" "r = [] \<or> \<not> is_digit (last r)"
  shows "get_base_disk_from_device (r @ ds) = r"
  using assms re_body_digits[OF assms(3,4), of r] rstrip_digits_append[OF assms(3,5)]
  by (simp add: get_base_disk_from_device_def sub_digits_def)

lemma inventory_nvme:
  "inventory (Some lsblk_nvme) =
     [\<lparr>path = ''/dev/nvme0n1'', dtype = ''disk'', size = Some ''477G'', mountpoint = None,
       fstype = None\<rparr>,
      \<lparr>path = ''/dev/nvme0n1p1'', dtype = ''part'', size = Some ''512M'', mountpoint = None,
       fstype = Some ''vfat''\<rparr>,
      \<lparr>path = ''/dev/nvme0n1p2'', dtype = ''part'', size = Some ''1G'', mountpoint = None,
       fstype = Some ''ext4''\<rparr>,
      \<lparr>path = ''/dev/nvme0n1p3'', dtype = ''part'', size = Some ''475G'', mountpoint = None,
       fstype = Some ''ext4''\<rparr>]"
  by code_simp

lemma rstrip_nvme: "rstrip_digits ''/dev/nvme0n1p3'' = ''/dev/nvme0n1p''"
  by code_simp

lemma base_disk_nvme: "get_base_disk_from_device ''/dev/nvme0n1p3'' = ''/dev/nvme0n1''"
  by code_simp

lemma env_nvme_simps:
  "proc env_nvme h c = Rc 0" "lsblk env_nvme h = Some lsblk_nvme"
  "blkid env_nvme h d = Inr ''0a1b-2c3d''" "mktemp env_nvme h = TmpOk ''/tmp/tmpk3y''"
  by (simp_all add: env_nvme_def env_const_def)

lemma strip_uuid: "py_strip ''0a1b-2c3d'' = ''0a1b-2c3d''"
  by code_simp

text \<open>
  C8 fails on the code: for the target \<^verbatim>\<open>/dev/nvme0n1p3\<close> the pipeline of pyrus.py and
  Tpyrus.py installs the bootloader on \<^verbatim>\<open>/dev/nvme0n1p\<close> (\<^verbatim>\<open>device.rstrip('0123456789')\<close>),
  which is not the base disk \<^verbatim>\<open>/dev/nvme0n1\<close> that the naming convention, and boot.py:95,
  give.
\<close>

theorem grub_install_target_nvme:
  "chroot_run ''grub-install /dev/nvme0n1p''
     \<in> set (invoked (new_events w0 (snd (worker env_nvme ''/dev/nvme0n1p3'' ''32M'' False False True w0))))
   \<and> chroot_run ''grub-install /dev/nvme0n1''
     \<notin> set (invoked (new_events w0 (snd (worker env_nvme ''/dev/nvme0n1p3'' ''32M'' False False True w0))))
   \<and> get_base_disk_from_device ''/dev/nvme0n1p3'' = ''/dev/nvme0n1''"
  by (simp add: worker_def guarded_def make_keyfile_def pipeline_def chroot_stage_def
        open_and_mount_def query_blkid_def list_block_devices_def seq_Cons seq_Nil
        new_events_def handlers_def key_cleanup_def prog_defs truthy_def Let_def
        env_nvme_simps inventory_nvme rstrip_nvme base_disk_nvme strip_uuid w0_def
        chroot_run_def reencrypt_cmd_def blkid_cmd_def lsblk_cmd_def
        crypttab_line_def fstab_root_line_def grub_cmd_def grub_line_def sq_def dq_def)

end
